theory Spec2Isabelle
  imports Main "HOL-Library.Word"
begin

section \<open>JavaScript values and exceptions\<close>

text \<open>
  The values that reach the vault and the controllers: \<open>null\<close>, \<open>undefined\<close>, booleans,
  (integral) numbers and strings. A JavaScript string is the list of its UTF-16 code units,
  so that an unpaired surrogate can be written; a buffer is a list of bytes. Names, keys
  and messages that the code only compares or stores are plain \<open>string\<close>s, and \<open>str\<close> turns
  a literal of the source into the JavaScript string of its characters.
\<close>

type_synonym jstring = "16 word list"

type_synonym buffer = "8 word list"

datatype jsval = JNull | JUndefined | JBool bool | JNum int | JStr jstring

fun truthy :: "jsval \<Rightarrow> bool" where
  "truthy JNull = False"
| "truthy JUndefined = False"
| "truthy (JBool b) = b"
| "truthy (JNum n) = (n \<noteq> 0)"
| "truthy (JStr s) = (s \<noteq> [])"

definition str :: "string \<Rightarrow> jstring" where
  "str s = map (\<lambda>c. of_nat (of_char c)) s"

text \<open>Every \<open>throw\<close> of the modelled code is a value of this type.\<close>

datatype exn =
    TypeError
  | InvalidKeyLength
  | InvalidIV
  | BadDecrypt
  | HttpError string
  | DatabaseError

fun message :: "exn \<Rightarrow> string" where
  "message TypeError = ''TypeError''"
| "message InvalidKeyLength = ''Invalid key length''"
| "message InvalidIV = ''Invalid initialization vector''"
| "message BadDecrypt = ''bad decrypt''"
| "message (HttpError m) = m"
| "message DatabaseError = ''database error''"

section \<open>Buffers: hex and UTF-8 transcoding\<close>

text \<open>\<open>buf.toString('hex')\<close>: two lower-case digits per byte.\<close>

definition hex_digit :: "nat \<Rightarrow> 16 word" where
  "hex_digit n = of_nat (if n < 10 then 48 + n else 87 + n)"

definition hex_byte :: "8 word \<Rightarrow> jstring" where
  "hex_byte b = [hex_digit (unat b div 16), hex_digit (unat b mod 16)]"

definition toString_hex :: "buffer \<Rightarrow> jstring" where
  "toString_hex bs = concat (map hex_byte bs)"

text \<open>
  \<open>Buffer.from(s, 'hex')\<close>: decodes pairs of hex digits (either case) and stops, without
  an error, at the first pair that is not hex; a trailing single character is dropped.
  Node's decoder looks a code unit up by its low byte.
\<close>

definition unhex :: "16 word \<Rightarrow> nat option" where
  "unhex c = (let n = unat c mod 256 in
     if 48 \<le> n \<and> n \<le> 57 then Some (n - 48)
     else if 97 \<le> n \<and> n \<le> 102 then Some (n - 87)
     else if 65 \<le> n \<and> n \<le> 70 then Some (n - 55)
     else None)"

fun from_hex :: "jstring \<Rightarrow> buffer" where
  "from_hex (a # b # cs) =
     (case unhex a of
        None \<Rightarrow> []
      | Some h \<Rightarrow> (case unhex b of
          None \<Rightarrow> []
        | Some l \<Rightarrow> of_nat (16 * h + l) # from_hex cs))"
| "from_hex _ = []"

text \<open>
  The \<open>'utf8'\<close> input encoding of the cipher stream. The string is read code point by
  code point: a high surrogate followed by a low one is one code point above \<open>0xFFFF\<close>,
  and a surrogate without its partner is replaced by \<open>U+FFFD\<close>.
\<close>

definition high_surrogate :: "nat \<Rightarrow> bool" where
  "high_surrogate u \<longleftrightarrow> 0xD800 \<le> u \<and> u \<le> 0xDBFF"

definition low_surrogate :: "nat \<Rightarrow> bool" where
  "low_surrogate u \<longleftrightarrow> 0xDC00 \<le> u \<and> u \<le> 0xDFFF"

fun code_points :: "nat list \<Rightarrow> nat list" where
  "code_points [] = []"
| "code_points [u] = [if high_surrogate u \<or> low_surrogate u then 0xFFFD else u]"
| "code_points (u # v # us) =
     (if high_surrogate u \<and> low_surrogate v
      then (0x10000 + (u - 0xD800) * 0x400 + (v - 0xDC00)) # code_points us
      else (if high_surrogate u \<or> low_surrogate u then 0xFFFD else u) # code_points (v # us))"

definition utf8_sequence :: "nat \<Rightarrow> nat list" where
  "utf8_sequence cp =
     (if cp < 0x80 then [cp]
      else if cp < 0x800 then [0xC0 + cp div 64, 0x80 + cp mod 64]
      else if cp < 0x10000 then [0xE0 + cp div 4096, 0x80 + cp div 64 mod 64, 0x80 + cp mod 64]
      else [0xF0 + cp div 262144, 0x80 + cp div 4096 mod 64, 0x80 + cp div 64 mod 64,
            0x80 + cp mod 64])"

text \<open>
  The \<open>'utf8'\<close> output encoding of the decipher stream: the decoder of the Encoding
  Standard, which accepts the shortest form of every code point that is no surrogate and
  puts \<open>U+FFFD\<close> for every maximal ill-formed run; a code point above \<open>0xFFFF\<close> becomes a
  surrogate pair.
\<close>

definition continuation :: "nat \<Rightarrow> bool" where
  "continuation b \<longleftrightarrow> 0x80 \<le> b \<and> b \<le> 0xBF"

fun utf8_decode :: "nat list \<Rightarrow> nat list" where
  "utf8_decode [] = []"
| "utf8_decode (b # bs) =
     (if b < 0x80 then b # utf8_decode bs
      else if 0xC2 \<le> b \<and> b \<le> 0xDF then
        (case bs of
           [] \<Rightarrow> [0xFFFD]
         | c # r \<Rightarrow>
             if continuation c
             then ((b - 0xC0) * 64 + (c - 0x80)) # utf8_decode r
             else 0xFFFD # utf8_decode bs)
      else if 0xE0 \<le> b \<and> b \<le> 0xEF then
        (case bs of
           [] \<Rightarrow> [0xFFFD]
         | c # r \<Rightarrow>
             if (if b = 0xE0 then 0xA0 else 0x80) \<le> c \<and> c \<le> (if b = 0xED then 0x9F else 0xBF)
             then (case r of
                     [] \<Rightarrow> [0xFFFD]
                   | d # r' \<Rightarrow>
                       if continuation d
                       then ((b - 0xE0) * 4096 + (c - 0x80) * 64 + (d - 0x80)) # utf8_decode r'
                       else 0xFFFD # utf8_decode r)
             else 0xFFFD # utf8_decode bs)
      else if 0xF0 \<le> b \<and> b \<le> 0xF4 then
        (case bs of
           [] \<Rightarrow> [0xFFFD]
         | c # r \<Rightarrow>
             if (if b = 0xF0 then 0x90 else 0x80) \<le> c \<and> c \<le> (if b = 0xF4 then 0x8F else 0xBF)
             then (case r of
                     [] \<Rightarrow> [0xFFFD]
                   | d # r' \<Rightarrow>
                       if continuation d
                       then (case r' of
                               [] \<Rightarrow> [0xFFFD]
                             | e # r'' \<Rightarrow>
                                 if continuation e
                                 then ((b - 0xF0) * 262144 + (c - 0x80) * 4096
                                        + (d - 0x80) * 64 + (e - 0x80)) # utf8_decode r''
                                 else 0xFFFD # utf8_decode r')
                       else 0xFFFD # utf8_decode r)
             else 0xFFFD # utf8_decode bs)
      else 0xFFFD # utf8_decode bs)"

definition utf16_units :: "nat \<Rightarrow> nat list" where
  "utf16_units cp =
     (if cp < 0x10000 then [cp]
      else [0xD800 + (cp - 0x10000) div 0x400, 0xDC00 + (cp - 0x10000) mod 0x400])"

definition utf8_bytes :: "jstring \<Rightarrow> buffer" where
  "utf8_bytes s = map of_nat (concat (map utf8_sequence (code_points (map unat s))))"

definition utf8_string :: "buffer \<Rightarrow> jstring" where
  "utf8_string bs = map of_nat (concat (map utf16_units (utf8_decode (map unat bs))))"

text \<open>\<open>s.isWellFormed()\<close>: no surrogate is without its partner.\<close>

fun paired :: "nat list \<Rightarrow> bool" where
  "paired [] = True"
| "paired [u] = (\<not> high_surrogate u \<and> \<not> low_surrogate u)"
| "paired (u # v # us) =
     (if high_surrogate u then low_surrogate v \<and> paired us
      else \<not> low_surrogate u \<and> paired (v # us))"

definition isWellFormed :: "jstring \<Rightarrow> bool" where
  "isWellFormed s = paired (map unat s)"

text \<open>The code points that have a UTF-8 form: all but the surrogates.\<close>

definition scalar :: "nat \<Rightarrow> bool" where
  "scalar cp \<longleftrightarrow> cp < 0x110000 \<and> \<not> (0xD800 \<le> cp \<and> cp \<le> 0xDFFF)"

text \<open>\<open>s.split(d)\<close> for a one-character separator, and \<open>parts.join(sep)\<close>.\<close>

fun split_on :: "'a \<Rightarrow> 'a list \<Rightarrow> 'a list list" where
  "split_on d [] = [[]]"
| "split_on d (c # cs) =
     (if c = d then [] # split_on d cs
      else (case split_on d cs of
              [] \<Rightarrow> [[c]]
            | p # ps \<Rightarrow> (c # p) # ps))"

fun join :: "'a list \<Rightarrow> 'a list list \<Rightarrow> 'a list" where
  "join sep [] = []"
| "join sep [p] = p"
| "join sep (p # q # ps) = p @ sep @ join sep (q # ps)"

definition colon :: "16 word" where
  "colon = 58"

section \<open>The credential vault (utils/encryption.js)\<close>

text \<open>
  The block cipher itself belongs to Node's \<open>crypto\<close> module and is a parameter:
  \<open>cbc_encrypt key iv plaintext\<close> is what \<open>update\<close> followed by \<open>final\<close> emit, and
  \<open>cbc_decrypt key iv ciphertext\<close> is \<open>None\<close> where \<open>final\<close> throws.
\<close>

record aes_256_cbc =
  cbc_encrypt :: "buffer \<Rightarrow> buffer \<Rightarrow> buffer \<Rightarrow> buffer"
  cbc_decrypt :: "buffer \<Rightarrow> buffer \<Rightarrow> buffer \<Rightarrow> buffer option"

definition IV_LENGTH :: nat where
  "IV_LENGTH = 16"

text \<open>
  \<open>Buffer.from(process.env.ENCRYPTION_KEY || '0'.repeat(64), 'hex')\<close>, evaluated when the
  module is loaded. The argument is the environment variable, \<open>None\<close> when it is unset.
\<close>

definition ENCRYPTION_KEY :: "jstring option \<Rightarrow> buffer" where
  "ENCRYPTION_KEY env =
     from_hex (case env of
                 None \<Rightarrow> str (replicate 64 (CHR ''0''))
               | Some s \<Rightarrow> if s = [] then str (replicate 64 (CHR ''0'')) else s)"

text \<open>\<open>crypto.randomBytes(n)\<close>, drawn from an entropy source.\<close>

definition randomBytes :: "nat \<Rightarrow> (nat \<Rightarrow> 8 word) \<Rightarrow> buffer" where
  "randomBytes n rnd = map rnd [0..<n]"

text \<open>
  \<open>crypto.createCipheriv('aes-256-cbc', key, iv)\<close> and \<open>createDecipheriv\<close>: both throw
  unless the initialization vector has 16 bytes and the key 32.
\<close>

definition createCipheriv :: "aes_256_cbc \<Rightarrow> buffer \<Rightarrow> buffer \<Rightarrow> exn + (buffer \<Rightarrow> buffer)" where
  "createCipheriv A key iv =
     (if length iv \<noteq> 16 then Inl InvalidIV
      else if length key \<noteq> 32 then Inl InvalidKeyLength
      else Inr (cbc_encrypt A key iv))"

definition createDecipheriv ::
  "aes_256_cbc \<Rightarrow> buffer \<Rightarrow> buffer \<Rightarrow> exn + (buffer \<Rightarrow> buffer option)" where
  "createDecipheriv A key iv =
     (if length iv \<noteq> 16 then Inl InvalidIV
      else if length key \<noteq> 32 then Inl InvalidKeyLength
      else Inr (cbc_decrypt A key iv))"

definition encrypt :: "aes_256_cbc \<Rightarrow> jstring option \<Rightarrow> (nat \<Rightarrow> 8 word) \<Rightarrow> jsval \<Rightarrow> exn + jsval" where
  "encrypt A env rnd text =
     (if \<not> truthy text then Inr JNull
      else
        let iv = randomBytes IV_LENGTH rnd in
        (case createCipheriv A (ENCRYPTION_KEY env) iv of
           Inl e \<Rightarrow> Inl e
         | Inr cipher \<Rightarrow>
             (case text of
                JStr s \<Rightarrow> Inr (JStr (toString_hex iv @ [colon] @ toString_hex (cipher (utf8_bytes s))))
              | _ \<Rightarrow> Inl TypeError)))"

text \<open>
  In \<open>decrypt\<close>, \<open>decipher.update(encryptedText, 'hex', 'utf8')\<close> throws a \<open>TypeError\<close> when
  the hex text has an odd number of characters; text of even length is decoded as
  \<open>Buffer.from\<close> decodes it.
\<close>

definition decrypt :: "aes_256_cbc \<Rightarrow> jstring option \<Rightarrow> jsval \<Rightarrow> exn + jsval" where
  "decrypt A env text =
     (if \<not> truthy text then Inr JNull
      else
        case text of
          JStr s \<Rightarrow>
            (case split_on colon s of
               [] \<Rightarrow> Inl TypeError
             | p # parts \<Rightarrow>
                 let iv = from_hex p;
                     encryptedText = join [colon] parts
                 in (case createDecipheriv A (ENCRYPTION_KEY env) iv of
                       Inl e \<Rightarrow> Inl e
                     | Inr decipher \<Rightarrow>
                         if odd (length encryptedText) then Inl TypeError
                         else
                           (case decipher (from_hex encryptedText) of
                              None \<Rightarrow> Inl BadDecrypt
                            | Some bs \<Rightarrow> Inr (JStr (utf8_string bs)))))
        | _ \<Rightarrow> Inl TypeError)"

text \<open>\<open>decrypt(encrypt(x))\<close>: an exception of \<open>encrypt\<close> propagates.\<close>

definition decrypt_encrypt ::
  "aes_256_cbc \<Rightarrow> jstring option \<Rightarrow> (nat \<Rightarrow> 8 word) \<Rightarrow> jsval \<Rightarrow> exn + jsval" where
  "decrypt_encrypt A env rnd x =
     (case encrypt A env rnd x of
        Inl e \<Rightarrow> Inl e
      | Inr c \<Rightarrow> decrypt A env c)"

text \<open>The contract of the cipher: with a key and a vector it accepts, deciphering inverts enciphering.\<close>

definition cipher_inverts :: "aes_256_cbc \<Rightarrow> bool" where
  "cipher_inverts A \<longleftrightarrow>
     (\<forall>key iv p. length key = 32 \<and> length iv = 16 \<longrightarrow>
        cbc_decrypt A key iv (cbc_encrypt A key iv p) = Some p)"

text \<open>
  A stand-in suite that satisfies the contract and a fixed entropy source, for evaluating
  the vault on concrete inputs.
\<close>

definition counting :: "nat \<Rightarrow> 8 word" where
  "counting n = of_nat n"

definition mirror_suite :: aes_256_cbc where
  "mirror_suite = \<lparr> cbc_encrypt = (\<lambda>key iv p. rev p @ iv),
                    cbc_decrypt = (\<lambda>key iv c.
                      if 16 \<le> length c \<and> drop (length c - 16) c = iv
                      then Some (rev (take (length c - 16) c)) else None) \<rparr>"

section \<open>The store (schema.sql)\<close>

text \<open>
  The rows of the tables the controllers read and write, with the columns they touch.
  Identifiers generated by the database are natural numbers; \<open>NOW()\<close> is a timestamp.
  The helper \<open>query\<close> of config/database.js hands a statement to the database; each
  statement of the controllers is modelled by what it does to the rows.
\<close>

type_synonym timestamp = nat

record connection =
  connection_id :: string
  provider :: string
  provider_company_id :: "string option"
  access_token_encrypted :: jsval
  conn_status :: string
  last_sync_at :: "timestamp option"

record sync_job =
  job_id :: nat
  job_connection_id :: string
  job_type :: string
  job_status :: string
  started_at :: "timestamp option"
  completed_at :: "timestamp option"
  records_processed :: nat
  records_failed :: nat
  error_message :: "string option"

text \<open>The body of one response of the provider's individual endpoint.\<close>

record employeeData =
  ed_first_name :: "string option"
  ed_last_name :: "string option"
  ed_emails :: "string option list option"
  ed_hire_date :: "string option"
  ed_employment :: "string option option"

record employee =
  employee_id :: nat
  emp_connection_id :: string
  provider_employee_id :: string
  first_name :: "string option"
  last_name :: "string option"
  emp_email :: "string option"
  hire_date :: "string option"
  employment_status :: "string option"
  source_data :: employeeData
  created_at :: timestamp
  updated_at :: timestamp

record audit_log =
  event_type :: string
  actor_id :: "string option"
  entity_type :: string
  entity_id :: string
  action :: string
  metadata :: "(string \<times> jsval) list"

record taxpayer =
  taxpayer_id :: nat
  tp_first_name :: string
  tp_last_name :: string
  tp_email :: "string option"
  filing_status :: "string option"
  kyc_status :: "string option"
  tp_role :: "string option"
  tp_created_at :: timestamp

record db =
  connections :: "connection list"
  sync_jobs :: "sync_job list"
  employees :: "employee list"
  audit_logs :: "audit_log list"
  taxpayers :: "taxpayer list"

text \<open>\<open>gen_random_uuid()\<close>: an identifier no row of the table has.\<close>

definition fresh_id :: "nat list \<Rightarrow> nat" where
  "fresh_id ids = fold (\<lambda>i m. max (Suc i) m) ids 0"

definition find_job :: "nat \<Rightarrow> db \<Rightarrow> sync_job option" where
  "find_job jobId D = find (\<lambda>j. job_id j = jobId) (sync_jobs D)"

section \<open>The provider and the environment of a sync run\<close>

text \<open>
  What the run cannot decide itself: the provider's answers, given the bearer token, the
  store's refusal of an upsert (a violated constraint, a lost connection), and the clock,
  which stands still during one run.
  \<open>directory\<close> is \<open>data.individuals\<close> of \<open>GET /employer/directory\<close>, the identifiers of the
  individuals, \<open>None\<close> when the field is missing; \<open>individual\<close> is \<open>data.responses\<close> of
  \<open>POST /employer/individual\<close>, each response with its \<open>body\<close> if it has one.
\<close>

record world =
  directory :: "jsval \<Rightarrow> exn + string list option"
  individual :: "jsval \<Rightarrow> string \<Rightarrow> exn + employeeData option list"
  upsert_refused :: "string \<Rightarrow> string \<Rightarrow> employeeData \<Rightarrow> bool"
  now :: timestamp

section \<open>The sync engine (controllers/finchController.js)\<close>

text \<open>\<open>employeeData.emails?.[0]?.data\<close> and \<open>employeeData.employment?.type\<close>.\<close>

definition first_email :: "employeeData \<Rightarrow> string option" where
  "first_email ed = (case ed_emails ed of
                       None \<Rightarrow> None
                     | Some [] \<Rightarrow> None
                     | Some (e # _) \<Rightarrow> e)"

definition employment_type :: "employeeData \<Rightarrow> string option" where
  "employment_type ed = (case ed_employment ed of None \<Rightarrow> None | Some t \<Rightarrow> t)"

text \<open>
  \<open>INSERT INTO employees (...) VALUES ($1, ..., $8) ON CONFLICT (connection_id,
  provider_employee_id) DO UPDATE SET first_name, last_name, email, employment_status,
  updated_at\<close>: the conflicting row keeps every column the \<open>SET\<close> list does not name.
\<close>

definition on_conflict_update :: "timestamp \<Rightarrow> employeeData \<Rightarrow> employee \<Rightarrow> employee" where
  "on_conflict_update t ed r =
     r\<lparr> first_name := ed_first_name ed,
        last_name := ed_last_name ed,
        emp_email := first_email ed,
        employment_status := employment_type ed,
        updated_at := t \<rparr>"

definition conflicts :: "string \<Rightarrow> string \<Rightarrow> employee \<Rightarrow> bool" where
  "conflicts connectionId individual_id r \<longleftrightarrow>
     emp_connection_id r = connectionId \<and> provider_employee_id r = individual_id"

definition upsert_employee ::
  "timestamp \<Rightarrow> string \<Rightarrow> string \<Rightarrow> employeeData \<Rightarrow> employee list \<Rightarrow> employee list" where
  "upsert_employee t connectionId individual_id ed rows =
     (if list_ex (conflicts connectionId individual_id) rows
      then map (\<lambda>r. if conflicts connectionId individual_id r
                     then on_conflict_update t ed r else r) rows
      else rows @
        [\<lparr> employee_id = fresh_id (map employee_id rows),
           emp_connection_id = connectionId,
           provider_employee_id = individual_id,
           first_name = ed_first_name ed,
           last_name = ed_last_name ed,
           emp_email = first_email ed,
           hire_date = ed_hire_date ed,
           employment_status = employment_type ed,
           source_data = ed,
           created_at = t,
           updated_at = t \<rparr>])"

text \<open>
  The body of the inner \<open>try\<close>: fetch the individual, take \<open>responses[0].body\<close>, upsert.
  \<open>Inl\<close> is the exception the inner \<open>catch\<close> receives.
\<close>

definition sync_individual :: "world \<Rightarrow> string \<Rightarrow> jsval \<Rightarrow> string \<Rightarrow> db \<Rightarrow> exn + db" where
  "sync_individual W connectionId accessToken individual_id D =
     (case individual W accessToken individual_id of
        Inl e \<Rightarrow> Inl e
      | Inr responses \<Rightarrow>
          (case responses of
             [] \<Rightarrow> Inl TypeError
           | None # _ \<Rightarrow> Inl TypeError
           | Some employeeData # _ \<Rightarrow>
               if upsert_refused W connectionId individual_id employeeData
               then Inl DatabaseError
               else Inr (D\<lparr> employees :=
                      upsert_employee (now W) connectionId individual_id employeeData
                        (employees D) \<rparr>)))"

text \<open>
  The state of the \<open>for\<close> loop: the store, the two counters, the identifiers whose detail
  was requested so far, and the lines written by \<open>console.error\<close>.
\<close>

record progress =
  store :: db
  recordsProcessed :: nat
  recordsFailed :: nat
  requested :: "string list"
  console :: "(string \<times> exn) list"

fun sync_loop :: "world \<Rightarrow> string \<Rightarrow> jsval \<Rightarrow> string list \<Rightarrow> progress \<Rightarrow> progress" where
  "sync_loop W connectionId accessToken [] P = P"
| "sync_loop W connectionId accessToken (i # rest) P =
     sync_loop W connectionId accessToken rest
       (case sync_individual W connectionId accessToken i (store P) of
          Inr D' \<Rightarrow> P\<lparr> store := D',
                       recordsProcessed := recordsProcessed P + 1,
                       requested := requested P @ [i] \<rparr>
        | Inl err \<Rightarrow> P\<lparr> recordsFailed := recordsFailed P + 1,
                        requested := requested P @ [i],
                        console := console P @ [(i, err)] \<rparr>)"

text \<open>
  The three \<open>UPDATE\<close> statements of the background function. The store carries them out:
  an \<open>UPDATE\<close> changes the rows its \<open>WHERE\<close> clause selects and does not throw.
\<close>

definition complete_job :: "timestamp \<Rightarrow> nat \<Rightarrow> nat \<Rightarrow> nat \<Rightarrow> db \<Rightarrow> db" where
  "complete_job t processed failed jobId D =
     D\<lparr> sync_jobs := map (\<lambda>j. if job_id j = jobId
                               then j\<lparr> job_status := ''completed'',
                                       completed_at := Some t,
                                       records_processed := processed,
                                       records_failed := failed \<rparr>
                               else j) (sync_jobs D) \<rparr>"

definition touch_last_sync :: "timestamp \<Rightarrow> string \<Rightarrow> db \<Rightarrow> db" where
  "touch_last_sync t connectionId D =
     D\<lparr> connections := map (\<lambda>c. if connection_id c = connectionId
                                 then c\<lparr> last_sync_at := Some t \<rparr>
                                 else c) (connections D) \<rparr>"

definition fail_job :: "timestamp \<Rightarrow> string \<Rightarrow> nat \<Rightarrow> db \<Rightarrow> db" where
  "fail_job t msg jobId D =
     D\<lparr> sync_jobs := map (\<lambda>j. if job_id j = jobId
                               then j\<lparr> job_status := ''failed'',
                                       completed_at := Some t,
                                       error_message := Some msg \<rparr>
                               else j) (sync_jobs D) \<rparr>"

definition start_progress :: "db \<Rightarrow> progress" where
  "start_progress D =
     \<lparr> store = D, recordsProcessed = 0, recordsFailed = 0, requested = [], console = [] \<rparr>"

text \<open>
  \<open>syncFinchPayrollData(connectionId, accessToken, jobId)\<close>, run to its end. An exception
  of the directory request reaches the outer \<open>catch\<close>.
\<close>

definition syncFinchPayrollData :: "world \<Rightarrow> string \<Rightarrow> jsval \<Rightarrow> nat \<Rightarrow> db \<Rightarrow> progress" where
  "syncFinchPayrollData W connectionId accessToken jobId D =
     (case directory W accessToken of
        Inl error \<Rightarrow>
          (start_progress D)\<lparr> store := fail_job (now W) (message error) jobId D \<rparr>
      | Inr data_individuals \<Rightarrow>
          let individuals = (case data_individuals of None \<Rightarrow> [] | Some ids \<Rightarrow> ids);
              P = sync_loop W connectionId accessToken individuals (start_progress D)
          in P\<lparr> store :=
                 touch_last_sync (now W) connectionId
                   (complete_job (now W) (recordsProcessed P) (recordsFailed P) jobId
                      (store P)) \<rparr>)"

text \<open>The bodies the handlers send with \<open>res.json\<close>, and the response with its status.\<close>

record user_view =
  userId :: nat
  firstName :: string
  lastName :: string
  user_email :: "string option"
  user_role :: string
  kycStatus :: "string option"
  createdAt :: timestamp

datatype body =
    ErrorBody string
  | SyncStarted string nat
  | LoginOk string user_view string

datatype response = Response nat body

text \<open>
  \<open>syncFinchData\<close>, the handler of \<open>POST /finch/sync/:connectionId\<close>. The background call
  it starts without awaiting is run to its end here; \<open>decrypt\<close> is called before the job
  row is inserted, and what it throws reaches the handler's \<open>catch\<close>.
\<close>

definition select_connection :: "string \<Rightarrow> db \<Rightarrow> connection list" where
  "select_connection connectionId D =
     filter (\<lambda>c. connection_id c = connectionId \<and> provider c = ''finch''
                  \<and> conn_status c = ''active'') (connections D)"

definition syncFinchData ::
  "aes_256_cbc \<Rightarrow> jstring option \<Rightarrow> world \<Rightarrow> string \<Rightarrow> db \<Rightarrow> response \<times> db" where
  "syncFinchData A env W connectionId D =
     (case select_connection connectionId D of
        [] \<Rightarrow> (Response 404 (ErrorBody ''Finch connection not found''), D)
      | connection # _ \<Rightarrow>
          (case decrypt A env (access_token_encrypted connection) of
             Inl err \<Rightarrow> (Response 500 (ErrorBody ''Failed to initiate sync''), D)
           | Inr accessToken \<Rightarrow>
               let jobId = fresh_id (map job_id (sync_jobs D));
                   D1 = D\<lparr> sync_jobs := sync_jobs D @
                          [\<lparr> job_id = jobId,
                             job_connection_id = connectionId,
                             job_type = ''finch_payroll_sync'',
                             job_status = ''processing'',
                             started_at = Some (now W),
                             completed_at = None,
                             records_processed = 0,
                             records_failed = 0,
                             error_message = None \<rparr>] \<rparr>
               in (Response 200 (SyncStarted ''Payroll sync started'' jobId),
                   store (syncFinchPayrollData W connectionId accessToken jobId D1))))"

section \<open>Login (controllers/authController.js)\<close>

text \<open>
  \<open>validPasswords\<close> is an object literal. \<open>validPasswords[email]\<close> finds an own property
  first and otherwise a property inherited from \<open>Object.prototype\<close>, whose values are
  functions and objects; a key that names neither gives \<open>undefined\<close>.
\<close>

definition validPasswords :: "(string \<times> string) list" where
  "validPasswords =
     [(''admin@tax.com'', ''admin123''),
      (''preparer@tax.com'', ''preparer123''),
      (''taxpayer@tax.com'', ''taxpayer123'')]"

definition Object_prototype :: "string list" where
  "Object_prototype =
     [''constructor'', ''__defineGetter__'', ''__defineSetter__'', ''hasOwnProperty'',
      ''__lookupGetter__'', ''__lookupSetter__'', ''isPrototypeOf'',
      ''propertyIsEnumerable'', ''toString'', ''valueOf'', ''__proto__'',
      ''toLocaleString'']"

datatype property = Own string | Inherited | Missing

definition get_property :: "(string \<times> string) list \<Rightarrow> string \<Rightarrow> property" where
  "get_property obj key =
     (case map_of obj key of
        Some v \<Rightarrow> Own v
      | None \<Rightarrow> if key \<in> set Object_prototype then Inherited else Missing)"

text \<open>\<open>validPasswords[email] && validPasswords[email] !== password\<close>.\<close>

definition password_mismatch :: "string \<Rightarrow> jsval \<Rightarrow> bool" where
  "password_mismatch email password =
     (case get_property validPasswords email of
        Own v \<Rightarrow> v \<noteq> [] \<and> JStr (str v) \<noteq> password
      | Inherited \<Rightarrow> True
      | Missing \<Rightarrow> False)"

text \<open>\<open>user.role || 'taxpayer'\<close>, and the rows of \<open>SELECT ... FROM taxpayers WHERE email = $1\<close>.\<close>

definition role_or_default :: "taxpayer \<Rightarrow> string" where
  "role_or_default user =
     (case tp_role user of
        None \<Rightarrow> ''taxpayer''
      | Some r \<Rightarrow> if r = [] then ''taxpayer'' else r)"

definition select_taxpayer :: "string \<Rightarrow> db \<Rightarrow> taxpayer list" where
  "select_taxpayer e D = filter (\<lambda>u. tp_email u = Some e) (taxpayers D)"

text \<open>
  \<open>login\<close>, with \<open>generateToken\<close> of middleware/auth.js as a parameter that receives the
  user row and the role. The email is a JSON string or absent; the password is any value.
\<close>

definition login ::
  "(taxpayer \<Rightarrow> string \<Rightarrow> string) \<Rightarrow> string option \<Rightarrow> jsval \<Rightarrow> db \<Rightarrow> response" where
  "login generateToken email password D =
     (case email of
        None \<Rightarrow> Response 400 (ErrorBody ''Email and password required'')
      | Some e \<Rightarrow>
          if e = [] \<or> \<not> truthy password
          then Response 400 (ErrorBody ''Email and password required'')
          else
            (case select_taxpayer e D of
               [] \<Rightarrow> Response 401 (ErrorBody ''Invalid email or password'')
             | user # _ \<Rightarrow>
                 if password_mismatch e password
                 then Response 401 (ErrorBody ''Invalid email or password'')
                 else
                   let role = role_or_default user;
                       token = generateToken user role
                   in Response 200
                        (LoginOk ''Login successful''
                           \<lparr> userId = taxpayer_id user,
                             firstName = tp_first_name user,
                             lastName = tp_last_name user,
                             user_email = tp_email user,
                             user_role = role,
                             kycStatus = kyc_status user,
                             createdAt = tp_created_at user \<rparr>
                           token)))"

section \<open>Scenarios\<close>

text \<open>
  Concrete inputs on which the definitions are evaluated. The provider \<open>acme\<close> lists
  three individuals and has lost the second between the directory and the detail request;
  \<open>outage\<close> lists the same three and answers no detail request; \<open>acme_later\<close> is \<open>acme\<close>
  after the first individual's record changed; \<open>offline\<close> does not answer at all.
\<close>

definition alice :: employeeData where
  "alice = \<lparr> ed_first_name = Some ''Alice'',
             ed_last_name = Some ''Ng'',
             ed_emails = Some [Some ''alice@acme.test''],
             ed_hire_date = Some ''2020-01-15'',
             ed_employment = Some (Some ''employee'') \<rparr>"

definition alice_later :: employeeData where
  "alice_later = \<lparr> ed_first_name = Some ''Alice'',
                   ed_last_name = Some ''Ng-Ito'',
                   ed_emails = Some [Some ''alice@acme.test''],
                   ed_hire_date = Some ''2021-06-01'',
                   ed_employment = Some (Some ''contractor'') \<rparr>"

definition acme :: world where
  "acme = \<lparr> directory = (\<lambda>tok. if tok = JStr (str ''tok'')
                             then Inr (Some [''e1'', ''e2'', ''e3''])
                             else Inl (HttpError ''Request failed with status code 401'')),
            individual = (\<lambda>tok i. if i = ''e2''
                             then Inl (HttpError ''Request failed with status code 404'')
                             else Inr [Some alice]),
            upsert_refused = (\<lambda>c i ed. False),
            now = 1000 \<rparr>"

definition acme_later :: world where
  "acme_later = acme \<lparr> individual := (\<lambda>tok i. Inr [Some alice_later]), now := 2000 \<rparr>"

definition outage :: world where
  "outage = acme \<lparr> individual := (\<lambda>tok i. Inl (HttpError ''timeout of 0ms exceeded'')) \<rparr>"

definition offline :: world where
  "offline = acme \<lparr> directory := (\<lambda>tok. Inl (HttpError ''connect ECONNREFUSED'')) \<rparr>"

text \<open>
  A store with one active connection whose credential is the envelope of \<open>tok\<close> under the
  default key and \<open>mirror_suite\<close>; the same store with a job in flight; and stores whose
  connection holds no envelope, an envelope that lost its last digit, or no credential at
  all.
\<close>

definition c1 :: connection where
  "c1 = \<lparr> connection_id = ''c1'',
          provider = ''finch'',
          provider_company_id = Some ''finch_company_123'',
          access_token_encrypted =
            JStr (str ''000102030405060708090a0b0c0d0e0f:6b6f74000102030405060708090a0b0c0d0e0f''),
          conn_status = ''active'',
          last_sync_at = None \<rparr>"

definition job0 :: sync_job where
  "job0 = \<lparr> job_id = 0,
            job_connection_id = ''c1'',
            job_type = ''finch_payroll_sync'',
            job_status = ''processing'',
            started_at = Some 999,
            completed_at = None,
            records_processed = 0,
            records_failed = 0,
            error_message = None \<rparr>"

definition quirky :: taxpayer where
  "quirky = \<lparr> taxpayer_id = 7,
              tp_first_name = ''Con'',
              tp_last_name = ''Structor'',
              tp_email = Some ''constructor'',
              filing_status = Some ''single'',
              kyc_status = Some ''pending'',
              tp_role = None,
              tp_created_at = 5 \<rparr>"

definition jane :: taxpayer where
  "jane = quirky \<lparr> taxpayer_id := 8, tp_first_name := ''Jane'', tp_last_name := ''Doe'',
                   tp_email := Some ''jane@example.com'' \<rparr>"

definition demo_taxpayer :: taxpayer where
  "demo_taxpayer = quirky \<lparr> taxpayer_id := 3, tp_first_name := ''John'',
                            tp_last_name := ''Taxpayer'', tp_email := Some ''taxpayer@tax.com'',
                            tp_role := Some ''taxpayer'' \<rparr>"

definition idle_db :: db where
  "idle_db = \<lparr> connections = [c1], sync_jobs = [], employees = [], audit_logs = [],
               taxpayers = [quirky, jane, demo_taxpayer] \<rparr>"

definition running_db :: db where
  "running_db = idle_db \<lparr> sync_jobs := [job0] \<rparr>"

definition garbled_db :: db where
  "garbled_db = idle_db \<lparr> connections := [c1 \<lparr> access_token_encrypted := JStr (str ''zz'') \<rparr>] \<rparr>"

definition truncated_db :: db where
  "truncated_db = idle_db \<lparr> connections :=
     [c1 \<lparr> access_token_encrypted :=
         JStr (str ''000102030405060708090a0b0c0d0e0f:6b6f74000102030405060708090a0b0c0d0e0'') \<rparr>] \<rparr>"

definition tokenless_db :: db where
  "tokenless_db = idle_db \<lparr> connections := [c1 \<lparr> access_token_encrypted := JNull \<rparr>] \<rparr>"

text \<open>A token issuer, standing for \<open>generateToken\<close>.\<close>

definition issue :: "taxpayer \<Rightarrow> string \<Rightarrow> string" where
  "issue user r = ''jwt.'' @ tp_first_name user @ ''.'' @ r"

section \<open>Properties of the transcoding\<close>

text \<open>
  Decoding inverts encoding on every code point that is no surrogate, and a well-formed
  string is the UTF-16 form of its code points: such a string survives the \<open>'utf8'\<close>
  encodings of the two cipher streams.
\<close>

lemma decode_1: "b < 0x80 \<Longrightarrow> utf8_decode (b # rest) = b # utf8_decode rest"
  by simp

lemma decode_2:
  assumes "0xC2 \<le> b" "b \<le> 0xDF" "0x80 \<le> c" "c \<le> 0xBF"
  shows "utf8_decode (b # c # rest) = ((b - 0xC0) * 64 + (c - 0x80)) # utf8_decode rest"
  using assms by (simp add: continuation_def)

lemma decode_3:
  assumes "0xE0 \<le> b" "b \<le> 0xEF"
      and "(if b = 0xE0 then 0xA0 else 0x80) \<le> c" "c \<le> (if b = 0xED then 0x9F else 0xBF)"
      and "0x80 \<le> d" "d \<le> 0xBF"
  shows "utf8_decode (b # c # d # rest) =
         ((b - 0xE0) * 4096 + (c - 0x80) * 64 + (d - 0x80)) # utf8_decode rest"
  using assms by (simp add: continuation_def)

lemma decode_4:
  assumes "0xF0 \<le> b" "b \<le> 0xF4"
      and "(if b = 0xF0 then 0x90 else 0x80) \<le> c" "c \<le> (if b = 0xF4 then 0x8F else 0xBF)"
      and "0x80 \<le> d" "d \<le> 0xBF" "0x80 \<le> e" "e \<le> 0xBF"
  shows "utf8_decode (b # c # d # e # rest) =
         ((b - 0xF0) * 262144 + (c - 0x80) * 4096 + (d - 0x80) * 64 + (e - 0x80))
           # utf8_decode rest"
  using assms by (simp add: continuation_def)

lemma split_64: "(n::nat) = n div 64 * 64 + n mod 64"
  by simp

lemma decode_one:
  assumes "cp < 0x80"
  shows "utf8_decode (utf8_sequence cp @ rest) = cp # utf8_decode rest"
  using assms by (simp add: utf8_sequence_def)

lemma decode_two:
  assumes "0x80 \<le> cp" "cp < 0x800"
  shows "utf8_decode (utf8_sequence cp @ rest) = cp # utf8_decode rest"
proof -
  define q r where "q = cp div 64" and "r = cp mod 64"
  have cp: "cp = q * 64 + r" and r: "r < 64"
    unfolding q_def r_def by simp_all
  have seq: "utf8_sequence cp = [0xC0 + q, 0x80 + r]"
    using assms by (simp add: utf8_sequence_def q_def r_def)
  have "utf8_decode ((0xC0 + q) # (0x80 + r) # rest) =
        ((0xC0 + q - 0xC0) * 64 + (0x80 + r - 0x80)) # utf8_decode rest"
    using assms cp r by (intro decode_2) linarith+
  then have "utf8_decode ((0xC0 + q) # (0x80 + r) # rest) = cp # utf8_decode rest"
    by (simp add: cp del: utf8_decode.simps)
  then show ?thesis unfolding seq by (simp del: utf8_decode.simps)
qed

lemma decode_three:
  assumes "0x800 \<le> cp" "cp < 0x10000" "\<not> (0xD800 \<le> cp \<and> cp \<le> 0xDFFF)"
  shows "utf8_decode (utf8_sequence cp @ rest) = cp # utf8_decode rest"
proof -
  define p q r where "p = cp div 64 div 64" and "q = cp div 64 mod 64" and "r = cp mod 64"
  have "cp div 64 = p * 64 + q" unfolding p_def q_def by simp
  then have cp: "cp = p * 4096 + q * 64 + r"
    using split_64 [of cp] unfolding r_def by simp
  have q: "q < 64" and r: "r < 64" unfolding q_def r_def by simp_all
  have "cp div 4096 = p" unfolding p_def by (simp add: div_mult2_eq)
  then have seq: "utf8_sequence cp = [0xE0 + p, 0x80 + q, 0x80 + r]"
    using assms by (simp add: utf8_sequence_def q_def r_def)
  have "utf8_decode ((0xE0 + p) # (0x80 + q) # (0x80 + r) # rest) =
        ((0xE0 + p - 0xE0) * 4096 + (0x80 + q - 0x80) * 64 + (0x80 + r - 0x80))
          # utf8_decode rest"
  proof (intro decode_3)
    show "0xE0 \<le> 0xE0 + p" by simp
    show "0xE0 + p \<le> 0xEF" using assms cp by linarith
    show "(if 0xE0 + p = 0xE0 then 0xA0 else 0x80) \<le> 0x80 + q"
      using assms cp r by (cases "p = 0") simp_all
    show "0x80 + q \<le> (if 0xE0 + p = 0xED then 0x9F else 0xBF)"
      using assms cp q r by (cases "p = 13") simp_all
    show "0x80 \<le> 0x80 + r" by simp
    show "0x80 + r \<le> 0xBF" using r by simp
  qed
  then have "utf8_decode ((0xE0 + p) # (0x80 + q) # (0x80 + r) # rest) = cp # utf8_decode rest"
    by (simp add: cp del: utf8_decode.simps)
  then show ?thesis unfolding seq by (simp del: utf8_decode.simps)
qed

lemma decode_four:
  assumes "0x10000 \<le> cp" "cp < 0x110000"
  shows "utf8_decode (utf8_sequence cp @ rest) = cp # utf8_decode rest"
proof -
  define o' p q r where "o' = cp div 64 div 64 div 64" and "p = cp div 64 div 64 mod 64"
    and "q = cp div 64 mod 64" and "r = cp mod 64"
  have "cp div 64 div 64 = o' * 64 + p" unfolding o'_def p_def by simp
  moreover have "cp div 64 = cp div 64 div 64 * 64 + q" unfolding q_def by simp
  ultimately have cp: "cp = o' * 262144 + p * 4096 + q * 64 + r"
    using split_64 [of cp] unfolding r_def by simp
  have p: "p < 64" and q: "q < 64" and r: "r < 64" unfolding p_def q_def r_def by simp_all
  have d1: "cp div 262144 = o'" unfolding o'_def by (simp add: div_mult2_eq)
  have "cp div 4096 = cp div 64 div 64" using div_mult2_eq [of cp 64 64] by simp
  then have d2: "cp div 4096 mod 64 = p" by (simp add: p_def)
  have seq: "utf8_sequence cp = [0xF0 + o', 0x80 + p, 0x80 + q, 0x80 + r]"
    using assms by (simp add: utf8_sequence_def d1 d2 q_def r_def)
  have "utf8_decode ((0xF0 + o') # (0x80 + p) # (0x80 + q) # (0x80 + r) # rest) =
        ((0xF0 + o' - 0xF0) * 262144 + (0x80 + p - 0x80) * 4096 + (0x80 + q - 0x80) * 64
          + (0x80 + r - 0x80)) # utf8_decode rest"
  proof (intro decode_4)
    show "0xF0 \<le> 0xF0 + o'" by simp
    show "0xF0 + o' \<le> 0xF4" using assms cp by linarith
    show "(if 0xF0 + o' = 0xF0 then 0x90 else 0x80) \<le> 0x80 + p"
      using assms cp q r by (cases "o' = 0") simp_all
    show "0x80 + p \<le> (if 0xF0 + o' = 0xF4 then 0x8F else 0xBF)"
      using assms cp p q r by (cases "o' = 4") simp_all
    show "0x80 \<le> 0x80 + q" by simp
    show "0x80 + q \<le> 0xBF" using q by simp
    show "0x80 \<le> 0x80 + r" by simp
    show "0x80 + r \<le> 0xBF" using r by simp
  qed
  then have "utf8_decode ((0xF0 + o') # (0x80 + p) # (0x80 + q) # (0x80 + r) # rest) =
             cp # utf8_decode rest"
    by (simp add: cp del: utf8_decode.simps)
  then show ?thesis unfolding seq by (simp del: utf8_decode.simps)
qed

lemma decode_sequence:
  assumes "scalar cp"
  shows "utf8_decode (utf8_sequence cp @ rest) = cp # utf8_decode rest"
proof -
  consider "cp < 0x80" | "0x80 \<le> cp" "cp < 0x800" | "0x800 \<le> cp" "cp < 0x10000"
    | "0x10000 \<le> cp" by linarith
  then show ?thesis
  proof cases
    case 1 then show ?thesis by (rule decode_one)
  next
    case 2 then show ?thesis by (rule decode_two)
  next
    case 3 with assms show ?thesis by (simp add: decode_three scalar_def)
  next
    case 4 with assms show ?thesis by (simp add: decode_four scalar_def)
  qed
qed

lemma decode_encode:
  assumes "\<forall>cp\<in>set cps. scalar cp"
  shows "utf8_decode (concat (map utf8_sequence cps)) = cps"
  using assms by (induction cps) (simp_all add: decode_sequence)

lemma utf16_of_pair:
  assumes "high_surrogate u" "low_surrogate v"
  shows "scalar (0x10000 + (u - 0xD800) * 0x400 + (v - 0xDC00))"
    and "utf16_units (0x10000 + (u - 0xD800) * 0x400 + (v - 0xDC00)) = [u, v]"
proof -
  define a b where "a = u - 0xD800" and "b = v - 0xDC00"
  have a: "a < 0x400" "u = 0xD800 + a" and b: "b < 0x400" "v = 0xDC00 + b"
    using assms unfolding a_def b_def high_surrogate_def low_surrogate_def by arith+
  have cp: "0x10000 + (u - 0xD800) * 0x400 + (v - 0xDC00) = 0x10000 + a * 0x400 + b"
    by (simp add: a_def b_def)
  show "scalar (0x10000 + (u - 0xD800) * 0x400 + (v - 0xDC00))"
    unfolding cp scalar_def using a(1) b(1) by simp
  have "(a * 0x400 + b) div 0x400 = a" "(a * 0x400 + b) mod 0x400 = b"
    using b(1) by simp_all
  then show "utf16_units (0x10000 + (u - 0xD800) * 0x400 + (v - 0xDC00)) = [u, v]"
    unfolding cp by (simp add: utf16_units_def a(2) b(2))
qed

lemma utf16_of_unit:
  assumes "\<not> high_surrogate u" "\<not> low_surrogate u" "u < 0x10000"
  shows "scalar u" and "utf16_units u = [u]"
  using assms unfolding scalar_def utf16_units_def high_surrogate_def low_surrogate_def
  by (arith, simp)

lemma code_points_paired:
  assumes "paired us" "\<forall>u\<in>set us. u < 0x10000"
  shows "(\<forall>cp\<in>set (code_points us). scalar cp)
         \<and> concat (map utf16_units (code_points us)) = us"
  using assms
proof (induction us rule: code_points.induct)
  case 1
  show ?case by simp
next
  case (2 u)
  then show ?case by (simp add: utf16_of_unit)
next
  case (3 u v us)
  show ?case
  proof (cases "high_surrogate u")
    case True
    with "3.prems" have v: "low_surrogate v" and rest: "paired us" by simp_all
    from "3.IH"(1) True v rest "3.prems"(2)
    have "(\<forall>cp\<in>set (code_points us). scalar cp)
          \<and> concat (map utf16_units (code_points us)) = us" by simp
    with True v show ?thesis by (simp add: utf16_of_pair)
  next
    case False
    with "3.prems" have u: "\<not> low_surrogate u" and rest: "paired (v # us)" by simp_all
    from "3.IH"(2) False rest "3.prems"(2)
    have "(\<forall>cp\<in>set (code_points (v # us)). scalar cp)
          \<and> concat (map utf16_units (code_points (v # us))) = v # us" by simp
    with False u "3.prems"(2) show ?thesis by (simp add: utf16_of_unit)
  qed
qed

lemma utf8_sequence_bytes:
  assumes "cp < 0x110000"
  shows "\<forall>b\<in>set (utf8_sequence cp). b < 256"
proof -
  have "cp div 262144 \<le> 4" using assms by simp
  moreover have "cp < 0x800 \<Longrightarrow> cp div 64 < 32" by simp
  moreover have "cp < 0x10000 \<Longrightarrow> cp div 4096 < 16" by simp
  moreover have "cp mod 64 < 64" "cp div 64 mod 64 < 64" "cp div 4096 mod 64 < 64" by simp_all
  ultimately show ?thesis by (auto simp: utf8_sequence_def)
qed

lemma unat_of_nat_bytes:
  assumes "\<forall>b\<in>set bs. b < 256"
  shows "map unat (map of_nat bs :: 8 word list) = bs"
  using assms by (induction bs) (simp_all add: unat_of_nat)

lemma of_nat_unat_units: "map of_nat (map unat s) = (s :: 16 word list)"
  by (induction s) simp_all

lemma units_below: "\<forall>u\<in>set (map unat (s :: 16 word list)). u < 0x10000"
proof
  fix u assume "u \<in> set (map unat s)"
  then obtain w :: "16 word" where "u = unat w" by auto
  moreover have "unat w < 2 ^ LENGTH(16)" by (rule unsigned_less)
  ultimately show "u < 0x10000" by simp
qed

lemma utf8_roundtrip:
  assumes "isWellFormed s"
  shows "utf8_string (utf8_bytes s) = s"
proof -
  let ?cps = "code_points (map unat s)"
  from assms have "paired (map unat s)" by (simp add: isWellFormed_def)
  from code_points_paired [OF this units_below]
  have sc: "\<forall>cp\<in>set ?cps. scalar cp" and again: "concat (map utf16_units ?cps) = map unat s"
    by simp_all
  have "\<forall>b\<in>set (concat (map utf8_sequence ?cps)). b < 256"
    using sc utf8_sequence_bytes by (auto simp: scalar_def)
  then have "map unat (utf8_bytes s) = concat (map utf8_sequence ?cps)"
    unfolding utf8_bytes_def by (rule unat_of_nat_bytes)
  then have "utf8_decode (map unat (utf8_bytes s)) = ?cps"
    using decode_encode [OF sc] by simp
  then have "utf8_string (utf8_bytes s) = map of_nat (map unat s)"
    by (simp only: utf8_string_def again)
  then show ?thesis by (simp only: of_nat_unat_units)
qed

lemma smiley_well_formed: "isWellFormed [0x74, 0xE9, 0x4E2D, 0xD83D, 0xDE00]"
  by (simp add: isWellFormed_def high_surrogate_def low_surrogate_def)

lemma tok_bytes: "utf8_bytes (str ''tok'') = [0x74, 0x6F, 0x6B]"
  by (simp add: utf8_bytes_def str_def utf8_sequence_def high_surrogate_def low_surrogate_def
      unat_of_nat)

lemma tok_string: "utf8_string [0x74, 0x6F, 0x6B] = str ''tok''"
  by (simp add: utf8_string_def str_def utf16_units_def)

lemma lone_surrogate: "utf8_string (utf8_bytes [0xD800]) = [0xFFFD]"
  by (simp add: utf8_string_def utf8_bytes_def utf8_sequence_def high_surrogate_def
      low_surrogate_def utf16_units_def continuation_def)

section \<open>Properties of the vault\<close>

subsection \<open>Hex, split and the key\<close>

lemma unhex_hex_digit: "n < 16 \<Longrightarrow> unhex (hex_digit n) = Some n"
  by (auto simp: unhex_def hex_digit_def Let_def unat_of_nat)

lemma nibbles_of_byte: "unat (b :: 8 word) div 16 < 16"
proof -
  have "unat b < 2 ^ LENGTH(8)" by (rule unsigned_less)
  then show ?thesis by simp
qed

lemma from_hex_byte: "from_hex (hex_byte b @ cs) = b # from_hex cs"
proof -
  have "(of_nat (16 * (unat b div 16) + unat b mod 16) :: 8 word) = b" by simp
  then show ?thesis by (simp add: hex_byte_def unhex_hex_digit nibbles_of_byte)
qed

lemma from_hex_toString_hex: "from_hex (toString_hex bs) = bs"
  by (induction bs) (simp_all add: toString_hex_def from_hex_byte)

lemma length_toString_hex: "length (toString_hex bs) = 2 * length bs"
  by (induction bs) (simp_all add: toString_hex_def hex_byte_def)

lemma hex_digit_not_colon: "n < 16 \<Longrightarrow> hex_digit n \<noteq> colon"
proof
  assume n: "n < 16" and "hex_digit n = colon"
  then have "unat (hex_digit n) = unat colon" by simp
  then have "(if n < 10 then 48 + n else 87 + n) mod 65536 = (58::nat)"
    by (simp add: hex_digit_def colon_def unat_of_nat)
  with n show False by (cases "n < 10") simp_all
qed

lemma colon_not_in_hex: "colon \<notin> set (toString_hex bs)"
proof (induction bs)
  case Nil
  show ?case by (simp add: toString_hex_def)
next
  case (Cons b bs)
  have "colon \<notin> set (hex_byte b)"
    using hex_digit_not_colon [OF nibbles_of_byte, of b] hex_digit_not_colon [of "unat b mod 16"]
    by (auto simp: hex_byte_def)
  with Cons show ?case by (simp add: toString_hex_def)
qed

lemma split_on_absent: "d \<notin> set s \<Longrightarrow> split_on d s = [s]"
  by (induction s) auto

lemma split_on_first: "d \<notin> set s \<Longrightarrow> split_on d (s @ d # t) = s # split_on d t"
  by (induction s) auto

lemma split_on_nonempty: "split_on d s \<noteq> []"
  by (induction s) (auto split: list.splits)

lemma split_envelope:
  "split_on colon (toString_hex iv @ colon # toString_hex ct) = [toString_hex iv, toString_hex ct]"
  by (simp add: split_on_first split_on_absent colon_not_in_hex)

lemma length_randomBytes: "length (randomBytes n rnd) = n"
  by (simp add: randomBytes_def)

lemma default_key: "ENCRYPTION_KEY None = replicate 32 0"
  unfolding ENCRYPTION_KEY_def by code_simp

lemma empty_key: "ENCRYPTION_KEY (Some []) = replicate 32 0"
  unfolding ENCRYPTION_KEY_def by code_simp

lemma readme_key: "ENCRYPTION_KEY (Some (str ''generate-a-64-char-hex-string'')) = []"
  unfolding ENCRYPTION_KEY_def by code_simp

lemma mirror_suite_inverts: "cipher_inverts mirror_suite"
  by (simp add: cipher_inverts_def mirror_suite_def)

lemma encrypt_string:
  assumes "x \<noteq> []"
  shows "encrypt A env rnd (JStr x) =
     (if length (ENCRYPTION_KEY env) \<noteq> 32 then Inl InvalidKeyLength
      else Inr (JStr (toString_hex (randomBytes 16 rnd) @ colon #
             toString_hex (cbc_encrypt A (ENCRYPTION_KEY env) (randomBytes 16 rnd) (utf8_bytes x)))))"
  using assms
  by (simp add: encrypt_def createCipheriv_def Let_def length_randomBytes IV_LENGTH_def)

lemma decrypt_envelope:
  assumes "length iv = 16"
  shows "decrypt A env (JStr (toString_hex iv @ colon # toString_hex ct)) =
     (if length (ENCRYPTION_KEY env) \<noteq> 32 then Inl InvalidKeyLength
      else case cbc_decrypt A (ENCRYPTION_KEY env) iv ct of
             None \<Rightarrow> Inl BadDecrypt
           | Some bs \<Rightarrow> Inr (JStr (utf8_string bs)))"
  using assms
  by (simp add: decrypt_def split_envelope createDecipheriv_def Let_def from_hex_toString_hex
      length_toString_hex)

lemma decrypt_bad_key:
  assumes "x \<noteq> []" and "length (ENCRYPTION_KEY env) \<noteq> 32"
  shows "isl (decrypt A env (JStr x))"
  using assms split_on_nonempty [of colon x]
  by (simp add: decrypt_def createDecipheriv_def Let_def split: list.splits)

lemma counting_bytes:
  "randomBytes 16 counting = [0, 1, 2, 3, 4, 5, 6, 7, 8, 9, 10, 11, 12, 13, 14, 15]"
  by (simp add: randomBytes_def counting_def upt_conv_Cons)

lemma counting_hex:
  "toString_hex [0, 1, 2, 3, 4, 5, 6, 7, 8, 9, 10, 11, 12, 13, 14, 15]
     = str ''000102030405060708090a0b0c0d0e0f''"
  by (simp add: toString_hex_def hex_byte_def hex_digit_def str_def)

lemma tok_hex:
  "toString_hex ([0x6B, 0x6F, 0x74] @ [0, 1, 2, 3, 4, 5, 6, 7, 8, 9, 10, 11, 12, 13, 14, 15])
     = str ''6b6f74000102030405060708090a0b0c0d0e0f''"
  by (simp add: toString_hex_def hex_byte_def hex_digit_def str_def)

lemma str_append: "str (a @ b) = str a @ str b"
  by (simp add: str_def)

lemma tok_envelope:
  "encrypt mirror_suite None counting (JStr (str ''tok'')) =
       Inr (JStr (str ''000102030405060708090a0b0c0d0e0f:6b6f74000102030405060708090a0b0c0d0e0f''))"
proof -
  have lit: "str ''000102030405060708090a0b0c0d0e0f:6b6f74000102030405060708090a0b0c0d0e0f''
        = str ''000102030405060708090a0b0c0d0e0f'' @ colon #
          str ''6b6f74000102030405060708090a0b0c0d0e0f''"
    by (simp add: str_def colon_def)
  have ne: "str ''tok'' \<noteq> []" by (simp add: str_def)
  have ct: "cbc_encrypt mirror_suite (replicate 32 0)
                   [0, 1, 2, 3, 4, 5, 6, 7, 8, 9, 10, 11, 12, 13, 14, 15]
                   (utf8_bytes (str ''tok''))
                 = [0x6B, 0x6F, 0x74] @ [0, 1, 2, 3, 4, 5, 6, 7, 8, 9, 10, 11, 12, 13, 14, 15]"
    by (simp add: mirror_suite_def tok_bytes)
  have "encrypt mirror_suite None counting (JStr (str ''tok'')) =
        Inr (JStr (toString_hex (randomBytes 16 counting) @ colon #
          toString_hex (cbc_encrypt mirror_suite (replicate 32 0) (randomBytes 16 counting)
            (utf8_bytes (str ''tok'')))))"
    by (simp add: encrypt_string [OF ne] default_key)
  then show ?thesis
    by (simp only: counting_bytes ct counting_hex tok_hex lit)
qed

lemma roundtrip_transcodes:
  assumes A: "cipher_inverts A"
      and K: "length (ENCRYPTION_KEY env) = 32"
      and X: "x \<noteq> []"
  shows "decrypt_encrypt A env rnd (JStr x) = Inr (JStr (utf8_string (utf8_bytes x)))"
proof -
  let ?iv = "randomBytes 16 rnd"
  let ?ct = "cbc_encrypt A (ENCRYPTION_KEY env) ?iv (utf8_bytes x)"
  have iv: "length ?iv = 16" by (simp add: length_randomBytes)
  have enc: "encrypt A env rnd (JStr x) = Inr (JStr (toString_hex ?iv @ colon # toString_hex ?ct))"
    using K by (simp add: encrypt_string [OF X])
  have inv: "cbc_decrypt A (ENCRYPTION_KEY env) ?iv ?ct = Some (utf8_bytes x)"
    using A K iv by (simp add: cipher_inverts_def)
  have "decrypt A env (JStr (toString_hex ?iv @ colon # toString_hex ?ct))
        = Inr (JStr (utf8_string (utf8_bytes x)))"
    using K inv by (simp add: decrypt_envelope [OF iv])
  with enc show ?thesis by (simp add: decrypt_encrypt_def)
qed

lemma odd_ciphertext_throws:
  "decrypt mirror_suite None (JStr (str ''000102030405060708090a0b0c0d0e0f:6b6f7'')) = Inl TypeError"
  unfolding decrypt_def ENCRYPTION_KEY_def by code_simp

subsection \<open>Round trip\<close>

text \<open>
  C7, as the code has it. For every non-empty string \<open>x\<close> that is well formed (no surrogate
  without its partner), and a key of 32 bytes (the default key, or 64 hex digits in the
  environment), \<open>decrypt(encrypt(x)) = x\<close>: with a cipher whose deciphering inverts its
  enciphering, \<open>encrypt\<close> returns an envelope \<open>iv:ciphertext\<close> in hex and \<open>decrypt\<close> of that
  envelope returns \<open>x\<close>, whatever the random vector.
\<close>

theorem decrypt_encrypt_roundtrip:
  assumes A: "cipher_inverts A"
      and K: "length (ENCRYPTION_KEY env) = 32"
      and X: "x \<noteq> []"
      and W: "isWellFormed x"
  shows "decrypt_encrypt A env rnd (JStr x) = Inr (JStr x)"
proof -
  have "utf8_string (utf8_bytes x) = x"
    using W by (rule utf8_roundtrip)
  with roundtrip_transcodes [OF A K X, of rnd] show ?thesis by simp
qed

text \<open>The round trip of a string with an accent, an ideograph and a surrogate pair.\<close>

theorem decrypt_encrypt_roundtrip_witness:
  "cipher_inverts mirror_suite \<and> length (ENCRYPTION_KEY None) = 32
   \<and> [0x74, 0xE9, 0x4E2D, 0xD83D, 0xDE00] \<noteq> ([] :: jstring)
   \<and> isWellFormed [0x74, 0xE9, 0x4E2D, 0xD83D, 0xDE00]
   \<and> decrypt_encrypt mirror_suite None counting (JStr [0x74, 0xE9, 0x4E2D, 0xD83D, 0xDE00])
       = Inr (JStr [0x74, 0xE9, 0x4E2D, 0xD83D, 0xDE00])"
  using decrypt_encrypt_roundtrip
          [of mirror_suite None "[0x74, 0xE9, 0x4E2D, 0xD83D, 0xDE00]" counting]
  by (simp add: mirror_suite_inverts default_key smiley_well_formed)

text \<open>
  C7 as stated fails: the string that is one unpaired surrogate comes back as \<open>U+FFFD\<close>,
  and with the placeholder key of the README \<open>encrypt\<close> throws for every string.
\<close>

theorem roundtrip_counterexample:
  "[0xD800] \<noteq> ([] :: jstring)
   \<and> decrypt_encrypt mirror_suite None counting (JStr [0xD800]) = Inr (JStr [0xFFFD])
   \<and> str ''tok'' \<noteq> []
   \<and> decrypt_encrypt mirror_suite (Some (str ''generate-a-64-char-hex-string'')) counting
        (JStr (str ''tok'')) = Inl InvalidKeyLength"
proof -
  note t = lone_surrogate
  have ne: "str ''tok'' \<noteq> []" by (simp add: str_def)
  have a: "decrypt_encrypt mirror_suite None counting (JStr [0xD800]) = Inr (JStr [0xFFFD])"
    using roundtrip_transcodes [of mirror_suite None "[0xD800]" counting]
    by (simp add: mirror_suite_inverts default_key t)
  have b: "decrypt_encrypt mirror_suite (Some (str ''generate-a-64-char-hex-string'')) counting
        (JStr (str ''tok'')) = Inl InvalidKeyLength"
    by (simp add: decrypt_encrypt_def encrypt_string [OF ne] readme_key)
  from a b ne show ?thesis by simp
qed

subsection \<open>The key at start-up\<close>

text \<open>
  C8, as the code has it. An absent key (unset or empty) does not stop the vault: the key
  is then 32 zero bytes, \<open>encrypt\<close> enciphers with it and \<open>decrypt\<close> deciphers every
  envelope with it. A malformed key does not stop the module load either; when its hex
  prefix is not 32 bytes long, every \<open>encrypt\<close> of a non-empty string throws
  \<open>Invalid key length\<close> at the call, and every \<open>decrypt\<close> throws.
\<close>

theorem key_fallback_and_late_failure:
  "ENCRYPTION_KEY None = replicate 32 0
   \<and> ENCRYPTION_KEY (Some []) = replicate 32 0
   \<and> (x \<noteq> [] \<longrightarrow>
        encrypt A None rnd (JStr x) =
          Inr (JStr (toString_hex (randomBytes 16 rnd) @ [colon] @
            toString_hex (cbc_encrypt A (replicate 32 0) (randomBytes 16 rnd) (utf8_bytes x)))))
   \<and> (length iv = 16 \<longrightarrow>
        decrypt A None (JStr (toString_hex iv @ [colon] @ toString_hex ct)) =
          (case cbc_decrypt A (replicate 32 0) iv ct of
             None \<Rightarrow> Inl BadDecrypt
           | Some bs \<Rightarrow> Inr (JStr (utf8_string bs))))
   \<and> (x \<noteq> [] \<and> length (ENCRYPTION_KEY env) \<noteq> 32 \<longrightarrow>
        encrypt A env rnd (JStr x) = Inl InvalidKeyLength \<and> isl (decrypt A env (JStr x)))"
proof (intro conjI impI)
  show "ENCRYPTION_KEY None = replicate 32 0" by (rule default_key)
  show "ENCRYPTION_KEY (Some []) = replicate 32 0" by (rule empty_key)
next
  assume "x \<noteq> []"
  then show "encrypt A None rnd (JStr x) =
          Inr (JStr (toString_hex (randomBytes 16 rnd) @ [colon] @
            toString_hex (cbc_encrypt A (replicate 32 0) (randomBytes 16 rnd) (utf8_bytes x))))"
    by (simp add: encrypt_string default_key)
next
  assume "length iv = 16"
  then show "decrypt A None (JStr (toString_hex iv @ [colon] @ toString_hex ct)) =
          (case cbc_decrypt A (replicate 32 0) iv ct of
             None \<Rightarrow> Inl BadDecrypt
           | Some bs \<Rightarrow> Inr (JStr (utf8_string bs)))"
    by (simp add: decrypt_envelope default_key)
next
  assume "x \<noteq> [] \<and> length (ENCRYPTION_KEY env) \<noteq> 32"
  then show "encrypt A env rnd (JStr x) = Inl InvalidKeyLength"
    by (simp add: encrypt_string)
next
  assume "x \<noteq> [] \<and> length (ENCRYPTION_KEY env) \<noteq> 32"
  then show "isl (decrypt A env (JStr x))"
    by (simp add: decrypt_bad_key)
qed

text \<open>The placeholder key of the README decodes to no byte at all.\<close>

theorem key_fallback_and_late_failure_witness:
  "str ''tok'' \<noteq> []
   \<and> length (ENCRYPTION_KEY (Some (str ''generate-a-64-char-hex-string''))) \<noteq> 32
   \<and> encrypt mirror_suite (Some (str ''generate-a-64-char-hex-string'')) counting
        (JStr (str ''tok'')) = Inl InvalidKeyLength
   \<and> isl (decrypt mirror_suite (Some (str ''generate-a-64-char-hex-string''))
        (JStr (str ''tok'')))
   \<and> encrypt mirror_suite None counting (JStr (str ''tok'')) =
          Inr (JStr (toString_hex (randomBytes 16 counting) @ [colon] @
            toString_hex (cbc_encrypt mirror_suite (replicate 32 0) (randomBytes 16 counting)
              (utf8_bytes (str ''tok'')))))
   \<and> length (randomBytes 16 counting) = 16
   \<and> decrypt mirror_suite None
        (JStr (toString_hex (randomBytes 16 counting) @ [colon] @
            toString_hex (cbc_encrypt mirror_suite (replicate 32 0) (randomBytes 16 counting)
              (utf8_bytes (str ''tok''))))) = Inr (JStr (str ''tok''))"
proof -
  have ne: "str ''tok'' \<noteq> []" by (simp add: str_def)
  have iv: "length (randomBytes 16 counting) = 16" by (simp add: length_randomBytes)
  have dec: "cbc_decrypt mirror_suite (replicate 32 0) (randomBytes 16 counting)
          (cbc_encrypt mirror_suite (replicate 32 0) (randomBytes 16 counting) p) = Some p" for p
    using mirror_suite_inverts iv by (simp add: cipher_inverts_def)
  show ?thesis
    using key_fallback_and_late_failure
          [of "str ''tok''" mirror_suite counting "randomBytes 16 counting"
              "cbc_encrypt mirror_suite (replicate 32 0) (randomBytes 16 counting)
                (utf8_bytes (str ''tok''))"
              "Some (str ''generate-a-64-char-hex-string'')"]
          ne iv
    by (simp add: readme_key dec tok_bytes tok_string)
qed

text \<open>
  C8 as stated fails: with no key in the environment the vault holds the zero key and
  \<open>encrypt\<close> returns an envelope made with it.
\<close>

theorem absent_key_counterexample:
  "ENCRYPTION_KEY None = replicate 32 0
   \<and> encrypt mirror_suite None counting (JStr (str ''tok'')) =
       Inr (JStr (str ''000102030405060708090a0b0c0d0e0f:6b6f74000102030405060708090a0b0c0d0e0f''))"
  by (simp only: default_key tok_envelope)

subsection \<open>Falsy inputs\<close>

text \<open>
  C10. \<open>encrypt\<close> of the empty string, and of any falsy value, is \<open>null\<close>, and so is
  \<open>decrypt\<close> of \<open>null\<close> and of any falsy value; \<open>null\<close> is a fixed point of both. The round
  trip of the empty string is \<open>null\<close>, and a value that the round trip gives back unchanged
  is \<open>null\<close> or a non-empty string.
\<close>

theorem falsy_input_yields_null:
  "(\<not> truthy v \<longrightarrow> encrypt A env rnd v = Inr JNull \<and> decrypt A env v = Inr JNull)
   \<and> encrypt A env rnd (JStr []) = Inr JNull
   \<and> encrypt A env rnd JNull = Inr JNull
   \<and> decrypt A env JNull = Inr JNull
   \<and> decrypt_encrypt A env rnd (JStr []) = Inr JNull
   \<and> (decrypt_encrypt A env rnd w = Inr w \<longrightarrow> w = JNull \<or> (\<exists>s. w = JStr s \<and> s \<noteq> []))"
proof -
  have falsy: "encrypt A env rnd u = Inr JNull \<and> decrypt A env u = Inr JNull"
    if "\<not> truthy u" for u
    using that by (simp add: encrypt_def decrypt_def)
  have round: "decrypt_encrypt A env rnd u = Inr JNull" if "\<not> truthy u" for u
    using falsy [OF that] falsy [of JNull] by (simp add: decrypt_encrypt_def)
  have only: "w = JNull \<or> (\<exists>s. w = JStr s \<and> s \<noteq> [])"
    if w: "decrypt_encrypt A env rnd w = Inr w"
  proof (cases "truthy w")
    case False
    with round [of w] w show ?thesis by simp
  next
    case True
    show ?thesis
    proof (cases w)
      case (JStr s)
      with True show ?thesis by simp
    next
      case JNull
      then show ?thesis by simp
    next
      case JUndefined
      with True show ?thesis by simp
    next
      case (JBool b)
      with True w show ?thesis
        by (simp add: decrypt_encrypt_def encrypt_def Let_def split: sum.splits)
    next
      case (JNum n)
      with True w show ?thesis
        by (simp add: decrypt_encrypt_def encrypt_def Let_def split: sum.splits)
    qed
  qed
  show ?thesis
    using falsy [of v] falsy [of "JStr []"] falsy [of JNull] round [of "JStr []"] only
    by simp
qed

text \<open>The number \<open>0\<close> is falsy; the token \<open>tok\<close> comes back from the round trip.\<close>

theorem falsy_input_yields_null_witness:
  "\<not> truthy (JNum 0)
   \<and> encrypt mirror_suite None counting (JNum 0) = Inr JNull
   \<and> decrypt mirror_suite None (JNum 0) = Inr JNull
   \<and> decrypt_encrypt mirror_suite None counting (JStr (str ''tok'')) = Inr (JStr (str ''tok''))
   \<and> (JStr (str ''tok'') = JNull \<or> (\<exists>s. JStr (str ''tok'') = JStr s \<and> s \<noteq> []))"
proof -
  have "str ''tok'' \<noteq> []" by (simp add: str_def)
  then have "decrypt_encrypt mirror_suite None counting (JStr (str ''tok'')) = Inr (JStr (str ''tok''))"
    using roundtrip_transcodes [of mirror_suite None "str ''tok''" counting]
    by (simp add: mirror_suite_inverts default_key tok_bytes tok_string)
  then show ?thesis
    using falsy_input_yields_null [of "JNum 0" mirror_suite None counting "JStr (str ''tok'')"]
    by simp
qed

section \<open>Properties of the sync engine\<close>

subsection \<open>The loop\<close>

text \<open>
  Whether a record fails does not depend on the store: only the provider's answer and the
  store's refusal decide it. The loop changes the \<open>employees\<close> table only.
\<close>

lemma isl_sync_individual:
  "isl (sync_individual W c t i D) = isl (sync_individual W c t i D')"
  by (simp add: sync_individual_def split: sum.splits list.splits option.splits)

lemma sync_individual_frame:
  assumes "sync_individual W c t i D = Inr D'"
  shows "connections D' = connections D \<and> sync_jobs D' = sync_jobs D \<and>
         audit_logs D' = audit_logs D \<and> taxpayers D' = taxpayers D"
  using assms
  by (auto simp: sync_individual_def split: sum.splits list.splits option.splits if_splits)

lemma sync_loop_requested:
  "requested (sync_loop W c t ids P) = requested P @ ids"
  by (induction ids arbitrary: P) (simp_all split: sum.splits)

lemma sync_loop_processed:
  "recordsProcessed (sync_loop W c t ids P) =
   recordsProcessed P + length (filter (\<lambda>i. \<not> isl (sync_individual W c t i D0)) ids)"
proof (induction ids arbitrary: P)
  case Nil
  show ?case by simp
next
  case (Cons i ids)
  show ?case
    using isl_sync_individual [of W c t i "store P" D0]
    by (cases "sync_individual W c t i (store P)") (simp_all add: Cons.IH)
qed

lemma sync_loop_failed:
  "recordsFailed (sync_loop W c t ids P) =
   recordsFailed P + length (filter (\<lambda>i. isl (sync_individual W c t i D0)) ids)"
proof (induction ids arbitrary: P)
  case Nil
  show ?case by simp
next
  case (Cons i ids)
  show ?case
    using isl_sync_individual [of W c t i "store P" D0]
    by (cases "sync_individual W c t i (store P)") (simp_all add: Cons.IH)
qed

lemma sync_loop_console:
  "map fst (console (sync_loop W c t ids P)) =
   map fst (console P) @ filter (\<lambda>i. isl (sync_individual W c t i D0)) ids"
proof (induction ids arbitrary: P)
  case Nil
  show ?case by simp
next
  case (Cons i ids)
  show ?case
    using isl_sync_individual [of W c t i "store P" D0]
    by (cases "sync_individual W c t i (store P)") (simp_all add: Cons.IH)
qed

lemma sync_loop_frame:
  "connections (store (sync_loop W c t ids P)) = connections (store P) \<and>
   sync_jobs (store (sync_loop W c t ids P)) = sync_jobs (store P) \<and>
   audit_logs (store (sync_loop W c t ids P)) = audit_logs (store P) \<and>
   taxpayers (store (sync_loop W c t ids P)) = taxpayers (store P)"
proof (induction ids arbitrary: P)
  case Nil
  show ?case by simp
next
  case (Cons i ids)
  show ?case
  proof (cases "sync_individual W c t i (store P)")
    case (Inl e)
    then show ?thesis by (simp add: Cons.IH)
  next
    case (Inr D')
    then show ?thesis using sync_individual_frame [OF Inr] by (simp add: Cons.IH)
  qed
qed

lemma sync_loop_total:
  "recordsProcessed (sync_loop W c t ids P) + recordsFailed (sync_loop W c t ids P) =
   recordsProcessed P + recordsFailed P + length ids"
  by (induction ids arbitrary: P) (simp_all split: sum.splits)

lemma find_updated_job:
  assumes "\<And>j. job_id (g j) = job_id j"
  shows "find (\<lambda>j. job_id j = k) (map (\<lambda>j. if job_id j = k then g j else j) js) =
         map_option g (find (\<lambda>j. job_id j = k) js)"
  using assms by (induction js) simp_all

lemma find_job_complete:
  "find_job k (complete_job t p f k D) =
   map_option (\<lambda>j. j\<lparr> job_status := ''completed'', completed_at := Some t,
                        records_processed := p, records_failed := f \<rparr>) (find_job k D)"
  unfolding find_job_def complete_job_def
  by (simp add: find_updated_job)

lemma find_job_fail:
  "find_job k (fail_job t m k D) =
   map_option (\<lambda>j. j\<lparr> job_status := ''failed'', completed_at := Some t,
                        error_message := Some m \<rparr>) (find_job k D)"
  unfolding find_job_def fail_job_def
  by (simp add: find_updated_job)

lemma find_job_touch: "find_job k (touch_last_sync t c D) = find_job k D"
  by (simp add: find_job_def touch_last_sync_def)

lemma find_job_cong: "sync_jobs D = sync_jobs D' \<Longrightarrow> find_job k D = find_job k D'"
  by (simp add: find_job_def)

text \<open>What a run does when the directory request succeeds.\<close>

lemma sync_after_directory:
  fixes W cid tok jobId D inds
  assumes dir: "directory W tok = Inr inds"
  defines "ids \<equiv> (case inds of None \<Rightarrow> [] | Some xs \<Rightarrow> xs)"
  defines "P \<equiv> syncFinchPayrollData W cid tok jobId D"
  shows "requested P = ids"
    and "recordsProcessed P = length (filter (\<lambda>i. \<not> isl (sync_individual W cid tok i D)) ids)"
    and "recordsFailed P = length (filter (\<lambda>i. isl (sync_individual W cid tok i D)) ids)"
    and "find_job jobId (store P) =
           map_option (\<lambda>j. j\<lparr> job_status := ''completed'', completed_at := Some (now W),
                               records_processed := recordsProcessed P,
                               records_failed := recordsFailed P \<rparr>) (find_job jobId D)"
    and "connections (store P) =
           map (\<lambda>c. if connection_id c = cid then c\<lparr> last_sync_at := Some (now W) \<rparr> else c)
             (connections D)"
    and "audit_logs (store P) = audit_logs D"
proof -
  let ?L = "sync_loop W cid tok ids (start_progress D)"
  have P: "P = ?L\<lparr> store := touch_last_sync (now W) cid
                 (complete_job (now W) (recordsProcessed ?L) (recordsFailed ?L) jobId (store ?L)) \<rparr>"
    using dir by (simp add: P_def ids_def syncFinchPayrollData_def Let_def)
  have frame: "connections (store ?L) = connections D" "sync_jobs (store ?L) = sync_jobs D"
    "audit_logs (store ?L) = audit_logs D"
    using sync_loop_frame [of W cid tok ids "start_progress D"]
    by (simp_all add: start_progress_def)
  show "requested P = ids"
    by (simp add: P sync_loop_requested start_progress_def)
  show "recordsProcessed P = length (filter (\<lambda>i. \<not> isl (sync_individual W cid tok i D)) ids)"
    by (simp add: P sync_loop_processed [where ?D0.0 = D] start_progress_def)
  show "recordsFailed P = length (filter (\<lambda>i. isl (sync_individual W cid tok i D)) ids)"
    by (simp add: P sync_loop_failed [where ?D0.0 = D] start_progress_def)
  show "find_job jobId (store P) =
           map_option (\<lambda>j. j\<lparr> job_status := ''completed'', completed_at := Some (now W),
                               records_processed := recordsProcessed P,
                               records_failed := recordsFailed P \<rparr>) (find_job jobId D)"
    using find_job_cong [OF frame(2)]
    by (simp add: P find_job_touch find_job_complete)
  show "connections (store P) =
           map (\<lambda>c. if connection_id c = cid then c\<lparr> last_sync_at := Some (now W) \<rparr> else c)
             (connections D)"
    by (simp add: P touch_last_sync_def complete_job_def frame)
  show "audit_logs (store P) = audit_logs D"
    by (simp add: P touch_last_sync_def complete_job_def frame)
qed

text \<open>What a run does when the directory request throws.\<close>

lemma sync_after_directory_error:
  fixes W cid tok jobId D err
  assumes dir: "directory W tok = Inl err"
  defines "P \<equiv> syncFinchPayrollData W cid tok jobId D"
  shows "requested P = []"
    and "recordsProcessed P = 0"
    and "recordsFailed P = 0"
    and "find_job jobId (store P) =
           map_option (\<lambda>j. j\<lparr> job_status := ''failed'', completed_at := Some (now W),
                               error_message := Some (message err) \<rparr>) (find_job jobId D)"
    and "connections (store P) = connections D"
    and "audit_logs (store P) = audit_logs D"
    and "employees (store P) = employees D"
  using dir
  by (simp_all add: P_def syncFinchPayrollData_def start_progress_def find_job_fail)
     (simp_all add: fail_job_def)

subsection \<open>Runs of the scenarios\<close>

lemma acme_directory: "directory acme (JStr (str ''tok'')) = Inr (Some [''e1'', ''e2'', ''e3''])"
  by (simp add: acme_def)

lemma outage_directory: "directory outage (JStr (str ''tok'')) = Inr (Some [''e1'', ''e2'', ''e3''])"
  by (simp add: outage_def acme_def)

lemma running_job: "find_job 0 running_db = Some job0"
  by (simp add: find_job_def running_db_def idle_db_def job0_def)

lemma outage_run:
  "syncFinchPayrollData outage ''c1'' (JStr (str ''tok'')) 0 running_db =
     \<lparr> store = running_db \<lparr> connections := [c1 \<lparr> last_sync_at := Some 1000 \<rparr>],
                            sync_jobs := [job0 \<lparr> job_status := ''completed'',
                                                 completed_at := Some 1000,
                                                 records_processed := 0,
                                                 records_failed := 3 \<rparr>] \<rparr>,
       recordsProcessed = 0,
       recordsFailed = 3,
       requested = [''e1'', ''e2'', ''e3''],
       console = [(''e1'', HttpError ''timeout of 0ms exceeded''),
                  (''e2'', HttpError ''timeout of 0ms exceeded''),
                  (''e3'', HttpError ''timeout of 0ms exceeded'')] \<rparr>"
  by (simp add: syncFinchPayrollData_def outage_def acme_def start_progress_def
      sync_individual_def Let_def complete_job_def touch_last_sync_def running_db_def
      idle_db_def job0_def c1_def)

subsection \<open>Partial failure\<close>



subsection \<open>Total failure\<close>

text \<open>
  C1, as the code has it. When the directory fetch succeeds and the loop ends with
  \<open>recordsProcessed = 0\<close> and \<open>recordsFailed > 0\<close>, the job ends \<open>completed\<close>, not
  \<open>failed\<close>, with the two counters on its row and no error message written.
\<close>

theorem total_failure_is_completed:
  fixes W cid tok jobId D inds j
  assumes dir: "directory W tok = Inr inds"
      and job: "find_job jobId D = Some j"
  defines "P \<equiv> syncFinchPayrollData W cid tok jobId D"
  assumes none: "recordsProcessed P = 0"
      and some: "0 < recordsFailed P"
  shows "\<exists>j'. find_job jobId (store P) = Some j' \<and> job_status j' = ''completed''
              \<and> job_status j' \<noteq> ''failed''
              \<and> records_processed j' = 0 \<and> records_failed j' = recordsFailed P
              \<and> error_message j' = error_message j"
  using sync_after_directory(4) [OF dir, where cid = cid and jobId = jobId and D = D, folded P_def]
        job none
  by simp

text \<open>Three identifiers, no detail request answered.\<close>

theorem total_failure_is_completed_witness:
  "directory outage (JStr (str ''tok'')) = Inr (Some [''e1'', ''e2'', ''e3''])
   \<and> find_job 0 running_db = Some job0
   \<and> recordsProcessed (syncFinchPayrollData outage ''c1'' (JStr (str ''tok'')) 0 running_db) = 0
   \<and> 0 < recordsFailed (syncFinchPayrollData outage ''c1'' (JStr (str ''tok'')) 0 running_db)
   \<and> (\<exists>j'. find_job 0 (store (syncFinchPayrollData outage ''c1'' (JStr (str ''tok'')) 0 running_db)) = Some j'
           \<and> job_status j' = ''completed'')"
proof -
  have none: "recordsProcessed (syncFinchPayrollData outage ''c1'' (JStr (str ''tok'')) 0 running_db) = 0"
    by (simp add: outage_run)
  have some: "0 < recordsFailed (syncFinchPayrollData outage ''c1'' (JStr (str ''tok'')) 0 running_db)"
    by (simp add: outage_run)
  from total_failure_is_completed [OF outage_directory running_job none some]
  obtain j' where
    "find_job 0 (store (syncFinchPayrollData outage ''c1'' (JStr (str ''tok'')) 0 running_db)) = Some j'"
    "job_status j' = ''completed''"
    by blast
  with outage_directory running_job none some show ?thesis by blast
qed

text \<open>C1 as stated fails: every detail fetch fails and the job is \<open>completed\<close>.\<close>

theorem total_failure_counterexample:
  "directory outage (JStr (str ''tok'')) = Inr (Some [''e1'', ''e2'', ''e3''])
   \<and> recordsProcessed (syncFinchPayrollData outage ''c1'' (JStr (str ''tok'')) 0 running_db) = 0
   \<and> recordsFailed (syncFinchPayrollData outage ''c1'' (JStr (str ''tok'')) 0 running_db) = 3
   \<and> map job_status (sync_jobs (store (syncFinchPayrollData outage ''c1'' (JStr (str ''tok'')) 0 running_db)))
       = [''completed'']
   \<and> map job_status (sync_jobs (store (syncFinchPayrollData outage ''c1'' (JStr (str ''tok'')) 0 running_db)))
       \<noteq> [''failed'']"
  by (simp add: outage_run outage_directory)

subsection \<open>More runs of the scenarios\<close>

lemma acme_run:
  "syncFinchPayrollData acme ''c1'' (JStr (str ''tok'')) 0 running_db =
     \<lparr> store = running_db
         \<lparr> connections := [c1 \<lparr> last_sync_at := Some 1000 \<rparr>],
           sync_jobs := [job0 \<lparr> job_status := ''completed'',
                                completed_at := Some 1000,
                                records_processed := 2,
                                records_failed := 1 \<rparr>],
           employees := upsert_employee 1000 ''c1'' ''e3'' alice
                          (upsert_employee 1000 ''c1'' ''e1'' alice []) \<rparr>,
       recordsProcessed = 2,
       recordsFailed = 1,
       requested = [''e1'', ''e2'', ''e3''],
       console = [(''e2'', HttpError ''Request failed with status code 404'')] \<rparr>"
  by (simp add: syncFinchPayrollData_def acme_def start_progress_def
      sync_individual_def Let_def complete_job_def touch_last_sync_def running_db_def
      idle_db_def job0_def c1_def)

lemma offline_run:
  "syncFinchPayrollData offline ''c1'' (JStr (str ''tok'')) 0 running_db =
     \<lparr> store = running_db
         \<lparr> sync_jobs := [job0 \<lparr> job_status := ''failed'',
                                completed_at := Some 1000,
                                error_message := Some ''connect ECONNREFUSED'' \<rparr>] \<rparr>,
       recordsProcessed = 0,
       recordsFailed = 0,
       requested = [],
       console = [] \<rparr>"
  by (simp add: syncFinchPayrollData_def offline_def acme_def start_progress_def
      fail_job_def running_db_def idle_db_def job0_def)

lemma garbled_select: "select_connection ''c1'' garbled_db = [c1 \<lparr> access_token_encrypted := JStr (str ''zz'') \<rparr>]"
  by (simp add: select_connection_def garbled_db_def idle_db_def c1_def)

lemma tokenless_select: "select_connection ''c1'' tokenless_db = [c1 \<lparr> access_token_encrypted := JNull \<rparr>]"
  by (simp add: select_connection_def tokenless_db_def idle_db_def c1_def)

lemma garbled_decrypt: "decrypt mirror_suite None (JStr (str ''zz'')) = Inl InvalidIV"
  unfolding decrypt_def ENCRYPTION_KEY_def by code_simp

lemma idle_select: "select_connection ''c1'' idle_db = [c1]"
  by (simp add: select_connection_def idle_db_def c1_def)

lemma c1_decrypt: "decrypt mirror_suite None (access_token_encrypted c1) = Inr (JStr (str ''tok''))"
proof -
  have ne: "str ''tok'' \<noteq> []" by (simp add: str_def)
  have "access_token_encrypted c1 =
        JStr (str ''000102030405060708090a0b0c0d0e0f:6b6f74000102030405060708090a0b0c0d0e0f'')"
    by (simp add: c1_def)
  moreover have "decrypt_encrypt mirror_suite None counting (JStr (str ''tok''))
                 = Inr (JStr (str ''tok''))"
    using roundtrip_transcodes [OF mirror_suite_inverts _ ne, of None counting]
    by (simp add: default_key tok_bytes tok_string)
  ultimately show ?thesis
    by (simp add: decrypt_encrypt_def tok_envelope)
qed

lemma truncated_select:
  "select_connection ''c1'' truncated_db =
     [c1 \<lparr> access_token_encrypted :=
         JStr (str ''000102030405060708090a0b0c0d0e0f:6b6f74000102030405060708090a0b0c0d0e0'') \<rparr>]"
  by (simp add: select_connection_def truncated_db_def idle_db_def c1_def)

lemma truncated_decrypt:
  "decrypt mirror_suite None
     (JStr (str ''000102030405060708090a0b0c0d0e0f:6b6f74000102030405060708090a0b0c0d0e0''))
   = Inl TypeError"
  unfolding decrypt_def ENCRYPTION_KEY_def by code_simp

lemma truncated_credential_rejected:
  "syncFinchData mirror_suite None acme ''c1'' truncated_db
     = (Response 500 (ErrorBody ''Failed to initiate sync''), truncated_db)"
  unfolding syncFinchData_def truncated_select by (simp add: truncated_decrypt)

subsection \<open>The last-sync timestamp\<close>

text \<open>
  C4, as the code has it. The connection's \<open>last_sync_at\<close> is set, to the time of the
  update, exactly when the directory fetch succeeds, which is exactly when the job ends
  \<open>completed\<close>, whatever \<open>recordsFailed\<close> is. When the directory fetch throws, the job ends
  \<open>failed\<close> and no column of any connection changes.
\<close>

theorem last_sync_at_follows_directory:
  fixes W cid tok jobId D
  defines "P \<equiv> syncFinchPayrollData W cid tok jobId D"
  shows "connections (store P) =
           (if isl (directory W tok) then connections D
            else map (\<lambda>c. if connection_id c = cid then c\<lparr> last_sync_at := Some (now W) \<rparr> else c)
                   (connections D))
       \<and> (\<forall>j. find_job jobId D = Some j \<longrightarrow>
             map_option job_status (find_job jobId (store P)) =
               Some (if isl (directory W tok) then ''failed'' else ''completed''))"
proof (cases "directory W tok")
  case (Inl err)
  show ?thesis
    using sync_after_directory_error(4,5) [OF Inl, where cid = cid and jobId = jobId and D = D]
    by (simp add: P_def Inl)
next
  case (Inr inds)
  show ?thesis
    using sync_after_directory(4,5) [OF Inr, where cid = cid and jobId = jobId and D = D]
    by (simp add: P_def Inr)
qed

text \<open>A run with one failed record, and a run whose directory fetch throws.\<close>

theorem last_sync_at_follows_directory_witness:
  "find_job 0 running_db = Some job0
   \<and> \<not> isl (directory acme (JStr (str ''tok'')))
   \<and> 0 < recordsFailed (syncFinchPayrollData acme ''c1'' (JStr (str ''tok'')) 0 running_db)
   \<and> map last_sync_at (connections (store (syncFinchPayrollData acme ''c1'' (JStr (str ''tok'')) 0 running_db)))
       = [Some (now acme)]
   \<and> map_option job_status (find_job 0 (store (syncFinchPayrollData acme ''c1'' (JStr (str ''tok'')) 0 running_db)))
       = Some ''completed''
   \<and> isl (directory offline (JStr (str ''tok'')))
   \<and> connections (store (syncFinchPayrollData offline ''c1'' (JStr (str ''tok'')) 0 running_db))
       = connections running_db
   \<and> map_option job_status (find_job 0 (store (syncFinchPayrollData offline ''c1'' (JStr (str ''tok'')) 0 running_db)))
       = Some ''failed''"
proof -
  have on: "\<not> isl (directory acme (JStr (str ''tok'')))" by (simp add: acme_directory)
  have off: "isl (directory offline (JStr (str ''tok'')))" by (simp add: offline_def)
  have conn: "connections running_db = [c1]" by (simp add: running_db_def idle_db_def)
  show ?thesis
    using last_sync_at_follows_directory [of acme "''c1''" "JStr (str ''tok'')" 0 running_db]
          last_sync_at_follows_directory [of offline "''c1''" "JStr (str ''tok'')" 0 running_db]
          on off running_job
    by (simp add: conn c1_def acme_run)
qed

text \<open>
  C4 as stated fails: the job completes with \<open>recordsFailed = 1\<close> and \<open>last_sync_at\<close> is
  written all the same.
\<close>

theorem last_sync_at_counterexample:
  "map job_status (sync_jobs (store (syncFinchPayrollData acme ''c1'' (JStr (str ''tok'')) 0 running_db)))
     = [''completed'']
   \<and> recordsFailed (syncFinchPayrollData acme ''c1'' (JStr (str ''tok'')) 0 running_db) = 1
   \<and> map last_sync_at (connections running_db) = [None]
   \<and> map last_sync_at (connections (store (syncFinchPayrollData acme ''c1'' (JStr (str ''tok'')) 0 running_db)))
     = [Some 1000]"
  unfolding acme_run by (simp add: running_db_def idle_db_def c1_def job0_def)

subsection \<open>The audit log\<close>

lemma syncFinchData_audit: "audit_logs (snd (syncFinchData A env W cid D)) = audit_logs D"
proof -
  have run: "audit_logs (store (syncFinchPayrollData W cid tok k D')) = audit_logs D'" for tok k D'
    by (cases "directory W tok")
       (simp_all add: sync_after_directory(6) sync_after_directory_error(6))
  show ?thesis
    by (simp add: syncFinchData_def Let_def run split: list.splits sum.splits)
qed

text \<open>
  C5, as the code has it. No transition of a job into a terminal state writes an audit
  event: the background run and the handler leave the audit log as it was. On completion
  the two counters are written to the job row; on failure the row keeps the counters it
  had.
\<close>

theorem sync_writes_no_audit_event:
  fixes W cid tok jobId D A env
  defines "P \<equiv> syncFinchPayrollData W cid tok jobId D"
  shows "audit_logs (store P) = audit_logs D
       \<and> audit_logs (snd (syncFinchData A env W cid D)) = audit_logs D
       \<and> (\<forall>j. find_job jobId D = Some j \<and> \<not> isl (directory W tok) \<longrightarrow>
             map_option (\<lambda>j'. (job_status j', records_processed j', records_failed j'))
               (find_job jobId (store P))
             = Some (''completed'', recordsProcessed P, recordsFailed P))
       \<and> (\<forall>j. find_job jobId D = Some j \<and> isl (directory W tok) \<longrightarrow>
             map_option (\<lambda>j'. (job_status j', records_processed j', records_failed j'))
               (find_job jobId (store P))
             = Some (''failed'', records_processed j, records_failed j))"
proof (cases "directory W tok")
  case (Inl err)
  show ?thesis
    using sync_after_directory_error(4,6) [OF Inl, where cid = cid and jobId = jobId and D = D]
    by (simp add: P_def Inl syncFinchData_audit)
next
  case (Inr inds)
  show ?thesis
    using sync_after_directory(4,6) [OF Inr, where cid = cid and jobId = jobId and D = D]
    by (simp add: P_def Inr syncFinchData_audit)
qed

text \<open>A run that completes and a run that fails, from an empty audit log.\<close>

theorem sync_writes_no_audit_event_witness:
  "find_job 0 running_db = Some job0
   \<and> \<not> isl (directory acme (JStr (str ''tok'')))
   \<and> audit_logs (store (syncFinchPayrollData acme ''c1'' (JStr (str ''tok'')) 0 running_db)) = []
   \<and> map_option (\<lambda>j'. (job_status j', records_processed j', records_failed j'))
        (find_job 0 (store (syncFinchPayrollData acme ''c1'' (JStr (str ''tok'')) 0 running_db)))
       = Some (''completed'', 2, 1)
   \<and> isl (directory offline (JStr (str ''tok'')))
   \<and> audit_logs (store (syncFinchPayrollData offline ''c1'' (JStr (str ''tok'')) 0 running_db)) = []
   \<and> map_option (\<lambda>j'. (job_status j', records_processed j', records_failed j'))
        (find_job 0 (store (syncFinchPayrollData offline ''c1'' (JStr (str ''tok'')) 0 running_db)))
       = Some (''failed'', 0, 0)"
proof -
  have on: "\<not> isl (directory acme (JStr (str ''tok'')))" by (simp add: acme_directory)
  have off: "isl (directory offline (JStr (str ''tok'')))" by (simp add: offline_def)
  have log: "audit_logs running_db = []" by (simp add: running_db_def idle_db_def)
  have counts: "recordsProcessed (syncFinchPayrollData acme ''c1'' (JStr (str ''tok'')) 0 running_db) = 2"
    "recordsFailed (syncFinchPayrollData acme ''c1'' (JStr (str ''tok'')) 0 running_db) = 1"
    by (simp_all add: acme_run)
  show ?thesis
    using sync_writes_no_audit_event [of acme "''c1''" "JStr (str ''tok'')" 0 running_db]
          sync_writes_no_audit_event [of offline "''c1''" "JStr (str ''tok'')" 0 running_db]
          on off running_job
    by (simp add: log counts job0_def)
qed

text \<open>
  C5 as stated fails: a job becomes \<open>completed\<close>, another \<open>failed\<close>, and the audit log holds
  no \<open>sync.completed\<close> and no \<open>sync.failed\<close> event.
\<close>

theorem audit_event_counterexample:
  "map job_status (sync_jobs (store (syncFinchPayrollData acme ''c1'' (JStr (str ''tok'')) 0 running_db)))
     = [''completed'']
   \<and> filter (\<lambda>a. event_type a = ''sync.completed'')
        (audit_logs (store (syncFinchPayrollData acme ''c1'' (JStr (str ''tok'')) 0 running_db))) = []
   \<and> map job_status (sync_jobs (store (syncFinchPayrollData offline ''c1'' (JStr (str ''tok'')) 0 running_db)))
     = [''failed'']
   \<and> filter (\<lambda>a. event_type a = ''sync.failed'')
        (audit_logs (store (syncFinchPayrollData offline ''c1'' (JStr (str ''tok'')) 0 running_db))) = []"
  unfolding acme_run offline_run by (simp add: running_db_def idle_db_def job0_def)

subsection \<open>A credential that does not decrypt\<close>

lemma fresh_id_above: "a \<le> fold (\<lambda>i m. max (Suc i) m) ids a \<and>
   (\<forall>i\<in>set ids. i < fold (\<lambda>i m. max (Suc i) m) ids a)"
proof (induction ids arbitrary: a)
  case Nil
  show ?case by simp
next
  case (Cons i ids)
  from Cons.IH [of "max (Suc i) a"] show ?case by auto
qed

lemma fresh_id_fresh: "fresh_id ids \<notin> set ids"
  using fresh_id_above [of 0 ids] by (auto simp: fresh_id_def)

lemma find_fresh_job: "find_job (fresh_id (map job_id (sync_jobs D))) D = None"
proof -
  have "job_id j \<noteq> fresh_id (map job_id (sync_jobs D))" if "j \<in> set (sync_jobs D)" for j
  proof -
    from that have "job_id j \<in> set (map job_id (sync_jobs D))" by simp
    with fresh_id_fresh [of "map job_id (sync_jobs D)"] show ?thesis by metis
  qed
  then show ?thesis by (simp add: find_job_def find_None_iff)
qed

lemma find_last:
  "find p xs = None \<Longrightarrow> find p (xs @ [y]) = (if p y then Some y else None)"
  by (induction xs) (simp_all split: if_splits)

lemma find_job_appended:
  assumes "job_id new = fresh_id (map job_id (sync_jobs D))"
  shows "find_job (job_id new) (D\<lparr> sync_jobs := sync_jobs D @ [new] \<rparr>) = Some new"
proof -
  have "job_id j \<noteq> job_id new" if "j \<in> set (sync_jobs D)" for j
  proof -
    from that have "job_id j \<in> set (map job_id (sync_jobs D))" by simp
    with fresh_id_fresh [of "map job_id (sync_jobs D)"] assms show ?thesis by metis
  qed
  then have "find (\<lambda>j. job_id j = job_id new) (sync_jobs D) = None"
    by (simp add: find_None_iff)
  then show ?thesis
    by (simp add: find_job_def find_last)
qed

lemma sync_keeps_status:
  "map conn_status (connections (store (syncFinchPayrollData W cid tok k D))) =
   map conn_status (connections D)"
proof (cases "directory W tok")
  case (Inl err)
  then show ?thesis by (simp add: sync_after_directory_error(5))
next
  case (Inr inds)
  then show ?thesis by (simp add: sync_after_directory(5) comp_def)
qed

text \<open>
  C3, as the code has it. When \<open>decrypt\<close> of the stored credential throws, the handler
  answers 500 \<open>Failed to initiate sync\<close> and the store is unchanged: no job row is created.
  A credential that decrypts, to \<open>null\<close> or to any string, is sent to the provider as it
  is: the handler answers 200 with the identifier of a job row that was not there before,
  and that job ends \<open>failed\<close> with the message of the exception when the directory fetch
  throws, and \<open>completed\<close> without a message otherwise. No sync attempt changes the
  status of a connection.
\<close>

theorem decrypt_failure_rejects_sync:
  "(select_connection cid D = c # cs \<and> decrypt A env (access_token_encrypted c) = Inl e \<longrightarrow>
      syncFinchData A env W cid D = (Response 500 (ErrorBody ''Failed to initiate sync''), D))
   \<and> (select_connection cid D = c # cs \<and> decrypt A env (access_token_encrypted c) = Inr tok \<longrightarrow>
      fst (syncFinchData A env W cid D) =
        Response 200 (SyncStarted ''Payroll sync started'' (fresh_id (map job_id (sync_jobs D))))
      \<and> find_job (fresh_id (map job_id (sync_jobs D))) D = None
      \<and> map_option (\<lambda>j. (job_connection_id j, job_status j, error_message j))
          (find_job (fresh_id (map job_id (sync_jobs D))) (snd (syncFinchData A env W cid D)))
        = Some (cid, case directory W tok of
                       Inl err \<Rightarrow> (''failed'', Some (message err))
                     | Inr inds \<Rightarrow> (''completed'', None)))
   \<and> map conn_status (connections (snd (syncFinchData A env W cid D))) =
       map conn_status (connections D)"
proof (intro conjI impI)
  assume "select_connection cid D = c # cs \<and> decrypt A env (access_token_encrypted c) = Inl e"
  then show "syncFinchData A env W cid D = (Response 500 (ErrorBody ''Failed to initiate sync''), D)"
    by (simp add: syncFinchData_def)
next
  assume h: "select_connection cid D = c # cs \<and> decrypt A env (access_token_encrypted c) = Inr tok"
  then show "fst (syncFinchData A env W cid D) =
        Response 200 (SyncStarted ''Payroll sync started'' (fresh_id (map job_id (sync_jobs D))))"
    by (simp add: syncFinchData_def Let_def)
next
  show "find_job (fresh_id (map job_id (sync_jobs D))) D = None"
    by (rule find_fresh_job)
next
  assume h: "select_connection cid D = c # cs \<and> decrypt A env (access_token_encrypted c) = Inr tok"
  let ?k = "fresh_id (map job_id (sync_jobs D))"
  let ?new = "\<lparr> job_id = ?k, job_connection_id = cid, job_type = ''finch_payroll_sync'',
                job_status = ''processing'', started_at = Some (now W), completed_at = None,
                records_processed = 0, records_failed = 0, error_message = None \<rparr>"
  let ?D1 = "D\<lparr> sync_jobs := sync_jobs D @ [?new] \<rparr>"
  have snd: "snd (syncFinchData A env W cid D) = store (syncFinchPayrollData W cid tok ?k ?D1)"
    using h by (simp add: syncFinchData_def Let_def)
  have new: "find_job ?k ?D1 = Some ?new"
    using find_job_appended [of ?new D] by simp
  show "map_option (\<lambda>j. (job_connection_id j, job_status j, error_message j))
          (find_job ?k (snd (syncFinchData A env W cid D)))
        = Some (cid, case directory W tok of
                       Inl err \<Rightarrow> (''failed'', Some (message err))
                     | Inr inds \<Rightarrow> (''completed'', None))"
  proof (cases "directory W tok")
    case (Inl err)
    show ?thesis
      unfolding snd sync_after_directory_error(4) [OF Inl] new by (simp add: Inl)
  next
    case (Inr inds)
    show ?thesis
      unfolding snd sync_after_directory(4) [OF Inr] new by (simp add: Inr)
  qed
next
  show "map conn_status (connections (snd (syncFinchData A env W cid D))) =
       map conn_status (connections D)"
    by (simp add: syncFinchData_def Let_def sync_keeps_status split: list.splits sum.splits)
qed

text \<open>
  A stored credential that is no envelope, a connection without a credential, and the
  connection with the envelope of \<open>tok\<close>.
\<close>

theorem decrypt_failure_rejects_sync_witness:
  "select_connection ''c1'' garbled_db = [c1 \<lparr> access_token_encrypted := JStr (str ''zz'') \<rparr>]
   \<and> decrypt mirror_suite None (JStr (str ''zz'')) = Inl InvalidIV
   \<and> syncFinchData mirror_suite None acme ''c1'' garbled_db
       = (Response 500 (ErrorBody ''Failed to initiate sync''), garbled_db)
   \<and> select_connection ''c1'' tokenless_db = [c1 \<lparr> access_token_encrypted := JNull \<rparr>]
   \<and> decrypt mirror_suite None JNull = Inr JNull
   \<and> directory acme JNull = Inl (HttpError ''Request failed with status code 401'')
   \<and> fst (syncFinchData mirror_suite None acme ''c1'' tokenless_db)
       = Response 200 (SyncStarted ''Payroll sync started'' 0)
   \<and> map_option (\<lambda>j. (job_connection_id j, job_status j, error_message j))
        (find_job 0 (snd (syncFinchData mirror_suite None acme ''c1'' tokenless_db)))
       = Some (''c1'', ''failed'', Some ''Request failed with status code 401'')
   \<and> select_connection ''c1'' idle_db = [c1]
   \<and> decrypt mirror_suite None (access_token_encrypted c1) = Inr (JStr (str ''tok''))
   \<and> map_option (\<lambda>j. (job_connection_id j, job_status j, error_message j))
        (find_job 0 (snd (syncFinchData mirror_suite None acme ''c1'' idle_db)))
       = Some (''c1'', ''completed'', None)"
proof -
  have null: "decrypt mirror_suite None JNull = Inr JNull" by (simp add: decrypt_def)
  have dir: "directory acme JNull = Inl (HttpError ''Request failed with status code 401'')"
    by (simp add: acme_def)
  have fresh: "fresh_id (map job_id (sync_jobs tokenless_db)) = 0"
    "fresh_id (map job_id (sync_jobs idle_db)) = 0"
    by (simp_all add: tokenless_db_def idle_db_def fresh_id_def)
  show ?thesis
    using decrypt_failure_rejects_sync
            [where cid = "''c1''" and D = garbled_db and A = mirror_suite and env = None
               and W = acme and c = "c1 \<lparr> access_token_encrypted := JStr (str ''zz'') \<rparr>"
               and cs = "[]" and e = InvalidIV]
          decrypt_failure_rejects_sync
            [where cid = "''c1''" and D = tokenless_db and A = mirror_suite and env = None
               and W = acme and c = "c1 \<lparr> access_token_encrypted := JNull \<rparr>"
               and cs = "[]" and tok = JNull]
          decrypt_failure_rejects_sync
            [where cid = "''c1''" and D = idle_db and A = mirror_suite and env = None
               and W = acme and c = c1 and cs = "[]" and tok = "JStr (str ''tok'')"]
    by (simp add: garbled_select tokenless_select idle_select garbled_decrypt c1_decrypt
        null dir fresh acme_directory)
qed

text \<open>
  C3 as stated fails: where \<open>decrypt\<close> throws there is no job and the connection stays
  \<open>active\<close>; where the credential is \<open>null\<close> the job fails with the provider's message and
  the connection stays \<open>active\<close>.
\<close>

theorem credential_error_counterexample:
  "decrypt mirror_suite None (access_token_encrypted (hd (connections garbled_db))) = Inl InvalidIV
   \<and> fst (syncFinchData mirror_suite None acme ''c1'' garbled_db)
       = Response 500 (ErrorBody ''Failed to initiate sync'')
   \<and> sync_jobs (snd (syncFinchData mirror_suite None acme ''c1'' garbled_db)) = []
   \<and> map conn_status (connections (snd (syncFinchData mirror_suite None acme ''c1'' garbled_db)))
       = [''active'']
   \<and> decrypt mirror_suite None (access_token_encrypted (hd (connections tokenless_db))) = Inr JNull
   \<and> map (\<lambda>j. (job_status j, error_message j))
        (sync_jobs (snd (syncFinchData mirror_suite None acme ''c1'' tokenless_db)))
       = [(''failed'', Some ''Request failed with status code 401'')]
   \<and> map conn_status (connections (snd (syncFinchData mirror_suite None acme ''c1'' tokenless_db)))
       = [''active'']"
proof -
  have g: "syncFinchData mirror_suite None acme ''c1'' garbled_db
       = (Response 500 (ErrorBody ''Failed to initiate sync''), garbled_db)"
    unfolding syncFinchData_def garbled_select by (simp add: garbled_decrypt)
  have t: "snd (syncFinchData mirror_suite None acme ''c1'' tokenless_db) =
       tokenless_db \<lparr> sync_jobs :=
         [\<lparr> job_id = 0, job_connection_id = ''c1'', job_type = ''finch_payroll_sync'',
            job_status = ''failed'', started_at = Some 1000, completed_at = Some 1000,
            records_processed = 0, records_failed = 0,
            error_message = Some ''Request failed with status code 401'' \<rparr>] \<rparr>"
    unfolding syncFinchData_def tokenless_select
    by (simp add: decrypt_def Let_def syncFinchPayrollData_def acme_def start_progress_def
        fail_job_def fresh_id_def tokenless_db_def idle_db_def)
  have d1: "decrypt mirror_suite None (access_token_encrypted (hd (connections garbled_db)))
       = Inl InvalidIV"
    by (simp add: garbled_db_def idle_db_def c1_def garbled_decrypt)
  have d2: "decrypt mirror_suite None (access_token_encrypted (hd (connections tokenless_db)))
       = Inr JNull"
    by (simp add: tokenless_db_def idle_db_def c1_def decrypt_def)
  show ?thesis
    unfolding g t d1 d2
    by (simp add: garbled_db_def tokenless_db_def idle_db_def c1_def)
qed

subsection \<open>Re-sync of an existing row\<close>

text \<open>
  On a conflict the upsert writes the four columns of its \<open>SET\<close> list and \<open>updated_at\<close>;
  the row keeps its natural key, and it keeps \<open>hire_date\<close> and \<open>source_data\<close> as well,
  although the statement binds fresh values for both.
\<close>

lemma on_conflict_update_columns:
  "first_name (on_conflict_update t ed r) = ed_first_name ed
   \<and> last_name (on_conflict_update t ed r) = ed_last_name ed
   \<and> emp_email (on_conflict_update t ed r) = first_email ed
   \<and> employment_status (on_conflict_update t ed r) = employment_type ed
   \<and> updated_at (on_conflict_update t ed r) = t
   \<and> hire_date (on_conflict_update t ed r) = hire_date r
   \<and> source_data (on_conflict_update t ed r) = source_data r
   \<and> created_at (on_conflict_update t ed r) = created_at r
   \<and> employee_id (on_conflict_update t ed r) = employee_id r
   \<and> emp_connection_id (on_conflict_update t ed r) = emp_connection_id r
   \<and> provider_employee_id (on_conflict_update t ed r) = provider_employee_id r"
  by (simp add: on_conflict_update_def)

lemma upsert_existing_row:
  assumes "find (conflicts cid i) rows = Some r"
  shows "find (conflicts cid i) (upsert_employee t cid i ed rows) = Some (on_conflict_update t ed r)"
proof -
  from assms have ex: "list_ex (conflicts cid i) rows"
    by (auto simp: list_ex_iff find_Some_iff)
  have "find (conflicts cid i)
          (map (\<lambda>r. if conflicts cid i r then on_conflict_update t ed r else r) rows)
        = map_option (on_conflict_update t ed) (find (conflicts cid i) rows)"
    by (induction rows) (auto simp: conflicts_def on_conflict_update_def)
  with ex assms show ?thesis by (simp add: upsert_employee_def)
qed

lemma upsert_natural_keys:
  "map (\<lambda>r. (emp_connection_id r, provider_employee_id r)) (upsert_employee t cid i ed rows) =
   map (\<lambda>r. (emp_connection_id r, provider_employee_id r)) rows @
     (if list_ex (conflicts cid i) rows then [] else [(cid, i)])"
  by (simp add: upsert_employee_def on_conflict_update_def comp_def if_distrib cong: if_cong)

text \<open>
  C6 asks that a re-sync overwrite every mutable column, \<open>hire_date\<close> and the retained
  payload included, and leave the natural key alone. The code at a record that changed
  between two syncs: the name and the employment status follow the provider, the natural
  key stays, and the hire date and the payload are still those of the first sync.
\<close>

theorem resync_keeps_hire_date_and_source_data:
  "sync_individual acme ''c1'' (JStr (str ''tok'')) ''e1'' idle_db =
     Inr (idle_db \<lparr> employees := upsert_employee 1000 ''c1'' ''e1'' alice [] \<rparr>)
   \<and> sync_individual acme_later ''c1'' (JStr (str ''tok'')) ''e1''
        (idle_db \<lparr> employees := upsert_employee 1000 ''c1'' ''e1'' alice [] \<rparr>) =
     Inr (idle_db \<lparr> employees :=
       [\<lparr> employee_id = 0,
          emp_connection_id = ''c1'',
          provider_employee_id = ''e1'',
          first_name = Some ''Alice'',
          last_name = Some ''Ng-Ito'',
          emp_email = Some ''alice@acme.test'',
          hire_date = Some ''2020-01-15'',
          employment_status = Some ''contractor'',
          source_data = alice,
          created_at = 1000,
          updated_at = 2000 \<rparr>] \<rparr>)
   \<and> ed_hire_date alice_later = Some ''2021-06-01''
   \<and> alice \<noteq> alice_later"
  by (simp add: sync_individual_def acme_later_def acme_def upsert_employee_def conflicts_def
      on_conflict_update_def first_email_def employment_type_def fresh_id_def idle_db_def
      alice_def alice_later_def)

section \<open>Properties of login\<close>

lemma str_empty: "(str s = []) = (s = [])"
  by (simp add: str_def)

lemma str_unit_inject:
  "((of_nat (of_char c) :: 16 word) = of_nat (of_char d)) = (c = d)"
proof
  assume "(of_nat (of_char c) :: 16 word) = of_nat (of_char d)"
  then have "unat (of_nat (of_char c) :: 16 word) = unat (of_nat (of_char d) :: 16 word)"
    by simp
  moreover have "(of_char c :: nat) < 256" "(of_char d :: nat) < 256" by simp_all
  ultimately have "(of_char c :: nat) = of_char d" by (simp add: unat_of_nat)
  then show "c = d" by simp
qed simp

lemma str_inject: "(str s = str t) = (s = t)"
proof -
  have "inj (\<lambda>c. of_nat (of_char c) :: 16 word)"
    by (rule injI) (simp add: str_unit_inject)
  then show ?thesis
    unfolding str_def by (rule inj_map_eq_map)
qed

lemma demo_emails: "map fst validPasswords = [''admin@tax.com'', ''preparer@tax.com'', ''taxpayer@tax.com'']"
  by (simp add: validPasswords_def)

lemma get_property_other:
  assumes "e \<notin> {''admin@tax.com'', ''preparer@tax.com'', ''taxpayer@tax.com''}"
      and "e \<notin> set Object_prototype"
  shows "get_property validPasswords e = Missing"
  using assms by (simp add: get_property_def validPasswords_def)

lemma get_property_own:
  assumes "(e, p) \<in> set validPasswords"
  shows "get_property validPasswords e = Own p \<and> p \<noteq> []"
  using assms by (auto simp: get_property_def validPasswords_def)

lemma jane_selected: "select_taxpayer ''jane@example.com'' idle_db = [jane]"
  by (simp add: select_taxpayer_def idle_db_def jane_def quirky_def demo_taxpayer_def)

lemma demo_selected: "select_taxpayer ''taxpayer@tax.com'' idle_db = [demo_taxpayer]"
  by (simp add: select_taxpayer_def idle_db_def jane_def quirky_def demo_taxpayer_def)

lemma quirky_selected: "select_taxpayer ''constructor'' idle_db = [quirky]"
  by (simp add: select_taxpayer_def idle_db_def jane_def quirky_def demo_taxpayer_def)

text \<open>
  Apart from the inherited names the password check is as narrow as it looks. For a
  registered user whose email is neither one of the three demo emails nor the name of a
  property that every object inherits, login succeeds and issues a token for every truthy
  password. For each of the three demo emails, login succeeds exactly for the password
  listed with it.
\<close>

theorem login_checks_demo_passwords_only:
  "(e \<noteq> [] \<and> truthy password
      \<and> e \<notin> {''admin@tax.com'', ''preparer@tax.com'', ''taxpayer@tax.com''}
      \<and> e \<notin> set Object_prototype
      \<and> select_taxpayer e D = user # others \<longrightarrow>
      (\<exists>view. login generateToken (Some e) password D =
                 Response 200 (LoginOk ''Login successful'' view
                   (generateToken user (role_or_default user)))
               \<and> userId view = taxpayer_id user \<and> user_email view = Some e))
   \<and> ((e, p) \<in> set validPasswords \<and> truthy password \<and> select_taxpayer e D = user # others \<longrightarrow>
        login generateToken (Some e) password D =
          (if password = JStr (str p)
           then Response 200 (LoginOk ''Login successful''
                  \<lparr> userId = taxpayer_id user, firstName = tp_first_name user,
                    lastName = tp_last_name user, user_email = tp_email user,
                    user_role = role_or_default user, kycStatus = kyc_status user,
                    createdAt = tp_created_at user \<rparr>
                  (generateToken user (role_or_default user)))
           else Response 401 (ErrorBody ''Invalid email or password'')))"
proof (intro conjI impI)
  assume h: "e \<noteq> [] \<and> truthy password
      \<and> e \<notin> {''admin@tax.com'', ''preparer@tax.com'', ''taxpayer@tax.com''}
      \<and> e \<notin> set Object_prototype
      \<and> select_taxpayer e D = user # others"
  then have "user \<in> set (select_taxpayer e D)" by simp
  then have mail: "tp_email user = Some e" by (simp add: select_taxpayer_def)
  from h have "password_mismatch e password = False"
    by (simp add: password_mismatch_def get_property_other)
  with h mail show "\<exists>view. login generateToken (Some e) password D =
                 Response 200 (LoginOk ''Login successful'' view
                   (generateToken user (role_or_default user)))
               \<and> userId view = taxpayer_id user \<and> user_email view = Some e"
    by (simp add: login_def Let_def)
next
  assume h: "(e, p) \<in> set validPasswords \<and> truthy password \<and> select_taxpayer e D = user # others"
  then have own: "get_property validPasswords e = Own p \<and> p \<noteq> []"
    using get_property_own by blast
  from h have "e \<noteq> []" by (auto simp: validPasswords_def)
  with h own show "login generateToken (Some e) password D =
          (if password = JStr (str p)
           then Response 200 (LoginOk ''Login successful''
                  \<lparr> userId = taxpayer_id user, firstName = tp_first_name user,
                    lastName = tp_last_name user, user_email = tp_email user,
                    user_role = role_or_default user, kycStatus = kyc_status user,
                    createdAt = tp_created_at user \<rparr>
                  (generateToken user (role_or_default user)))
           else Response 401 (ErrorBody ''Invalid email or password''))"
    by (auto simp: login_def Let_def password_mismatch_def)
qed

text \<open>An ordinary user with an arbitrary password, and the demo taxpayer with a wrong one.\<close>

theorem login_checks_demo_passwords_only_witness:
  "''jane@example.com'' \<noteq> [] \<and> truthy (JStr (str ''anything''))
   \<and> ''jane@example.com'' \<notin> {''admin@tax.com'', ''preparer@tax.com'', ''taxpayer@tax.com''}
   \<and> ''jane@example.com'' \<notin> set Object_prototype
   \<and> select_taxpayer ''jane@example.com'' idle_db = [jane]
   \<and> (\<exists>view. login issue (Some ''jane@example.com'') (JStr (str ''anything'')) idle_db =
         Response 200 (LoginOk ''Login successful'' view (issue jane (role_or_default jane))))
   \<and> (''taxpayer@tax.com'', ''taxpayer123'') \<in> set validPasswords
   \<and> select_taxpayer ''taxpayer@tax.com'' idle_db = [demo_taxpayer]
   \<and> login issue (Some ''taxpayer@tax.com'') (JStr (str ''anything'')) idle_db =
       Response 401 (ErrorBody ''Invalid email or password'')"
proof -
  have a: "''jane@example.com'' \<notin> set Object_prototype" by (simp add: Object_prototype_def)
  have b: "(''taxpayer@tax.com'', ''taxpayer123'') \<in> set validPasswords"
    by (simp add: validPasswords_def)
  from login_checks_demo_passwords_only
         [where e = "''jane@example.com''" and password = "JStr (str ''anything'')" and D = idle_db
            and user = jane and others = "[]" and generateToken = issue]
       a jane_selected
  have 1: "\<exists>view. login issue (Some ''jane@example.com'') (JStr (str ''anything'')) idle_db =
         Response 200 (LoginOk ''Login successful'' view (issue jane (role_or_default jane)))"
    by (auto simp: str_empty)
  from login_checks_demo_passwords_only
         [where e = "''taxpayer@tax.com''" and p = "''taxpayer123''"
            and password = "JStr (str ''anything'')" and D = idle_db
            and user = demo_taxpayer and others = "[]" and generateToken = issue]
       b demo_selected
  have 2: "login issue (Some ''taxpayer@tax.com'') (JStr (str ''anything'')) idle_db =
       Response 401 (ErrorBody ''Invalid email or password'')"
    by (simp add: str_empty str_inject)
  from a b 1 2 jane_selected demo_selected show ?thesis by (simp add: str_empty)
qed

text \<open>
  C9 asks that login succeed, for any non-empty password, for every registered user whose
  email is not one of the three demo emails. The code at a registered user whose email is
  \<open>constructor\<close>: \<open>validPasswords['constructor']\<close> is the inherited \<open>Object\<close> function, which
  is truthy and differs from every password, and login answers 401.
\<close>

theorem login_rejects_inherited_name:
  "select_taxpayer ''constructor'' idle_db = [quirky]
   \<and> ''constructor'' \<notin> {''admin@tax.com'', ''preparer@tax.com'', ''taxpayer@tax.com''}
   \<and> truthy (JStr (str ''anything''))
   \<and> login issue (Some ''constructor'') (JStr (str ''anything'')) idle_db =
       Response 401 (ErrorBody ''Invalid email or password'')"
proof -
  have "password_mismatch ''constructor'' (JStr (str ''anything''))"
    by (simp add: password_mismatch_def get_property_def validPasswords_def Object_prototype_def)
  then show ?thesis
    by (simp add: login_def quirky_selected str_empty)
qed

end
